theory Spec2Isabelle
  imports Complex_Main "HOL-Library.Log_Nat" "HOL-Library.Char_ord" "HOL-Library.List_Lexorder"
begin

section \<open>Exceptions\<close>

text \<open>
  The exceptions that \<^verbatim>\<open>features.py\<close> and the library functions it calls can raise.
  A computation that may raise returns \<open>error + 'a\<close>, with \<open>Inl\<close> for the exception.
\<close>

datatype error = ValueError | ZeroDivisionError | IndexError | OverflowError

definition ebind :: "error + 'a \<Rightarrow> ('a \<Rightarrow> error + 'b) \<Rightarrow> error + 'b" where
  "ebind x f = (case x of Inl e \<Rightarrow> Inl e | Inr v \<Rightarrow> f v)"

fun emap :: "('a \<Rightarrow> error + 'b) \<Rightarrow> 'a list \<Rightarrow> error + 'b list" where
  "emap f [] = Inr []"
| "emap f (x # xs) = ebind (f x) (\<lambda>y. ebind (emap f xs) (\<lambda>ys. Inr (y # ys)))"

section \<open>Python floats\<close>

text \<open>
  A Python \<^verbatim>\<open>float\<close> is an IEEE 754 binary64 value. A finite value is modelled by the
  rational number it denotes, and every arithmetic operation rounds its exact result to
  the nearest binary64 value, ties to even (\<open>fl_round\<close>). The sign of zero is not tracked:
  \<^verbatim>\<open>-0.0 == 0.0\<close> holds in Python and no operation of the program tells them apart.
\<close>

datatype pyfloat = Fin rat | PInf | NInf | NaN

definition pow2 :: "int \<Rightarrow> rat" where
  "pow2 k = (if 0 \<le> k then 2 ^ nat k else 1 / 2 ^ nat (- k))"

definition ilog2 :: "rat \<Rightarrow> int" where
  \<comment> \<open>\<open>\<lfloor>log\<^sub>2 \<bar>x\<bar>\<rfloor>\<close> for \<open>x \<noteq> 0\<close>\<close>
  "ilog2 x = (let (p, q) = quotient_of \<bar>x\<bar>; d = bitlen p - bitlen q
              in if pow2 d \<le> \<bar>x\<bar> then d else d - 1)"

definition round_half_even :: "rat \<Rightarrow> int" where
  "round_half_even x = (let f = \<lfloor>x\<rfloor>; r = x - of_int f
     in if r < 1 / 2 then f else if 1 / 2 < r then f + 1 else if even f then f else f + 1)"

definition fl_round :: "rat \<Rightarrow> pyfloat" where
  \<comment> \<open>53 significant bits, smallest quantum \<open>2\<^sup>-\<^sup>1\<^sup>0\<^sup>7\<^sup>4\<close>, largest \<open>2\<^sup>9\<^sup>7\<^sup>1\<close>\<close>
  "fl_round x = (if x = 0 then Fin 0 else
     let q = max (ilog2 x - 52) (- 1074);
         m = round_half_even (x / pow2 q)
     in if 971 < q \<or> (q = 971 \<and> 2 ^ 53 \<le> \<bar>m\<bar>) then (if 0 < x then PInf else NInf)
        else Fin (of_int m * pow2 q))"

definition fneg :: "pyfloat \<Rightarrow> pyfloat" where
  "fneg x = (case x of Fin a \<Rightarrow> Fin (- a) | PInf \<Rightarrow> NInf | NInf \<Rightarrow> PInf | NaN \<Rightarrow> NaN)"

definition fabs :: "pyfloat \<Rightarrow> pyfloat" where
  "fabs x = (case x of Fin a \<Rightarrow> Fin \<bar>a\<bar> | PInf \<Rightarrow> PInf | NInf \<Rightarrow> PInf | NaN \<Rightarrow> NaN)"

fun fadd :: "pyfloat \<Rightarrow> pyfloat \<Rightarrow> pyfloat" where
  "fadd (Fin a) (Fin b) = fl_round (a + b)"
| "fadd NaN _ = NaN"
| "fadd _ NaN = NaN"
| "fadd PInf NInf = NaN"
| "fadd NInf PInf = NaN"
| "fadd PInf _ = PInf"
| "fadd NInf _ = NInf"
| "fadd (Fin a) y = y"

definition fsub :: "pyfloat \<Rightarrow> pyfloat \<Rightarrow> pyfloat" where
  "fsub x y = fadd x (fneg y)"

fun fmul :: "pyfloat \<Rightarrow> pyfloat \<Rightarrow> pyfloat" where
  "fmul (Fin a) (Fin b) = fl_round (a * b)"
| "fmul NaN _ = NaN"
| "fmul _ NaN = NaN"
| "fmul (Fin a) PInf = (if a = 0 then NaN else if 0 < a then PInf else NInf)"
| "fmul (Fin a) NInf = (if a = 0 then NaN else if 0 < a then NInf else PInf)"
| "fmul PInf (Fin b) = (if b = 0 then NaN else if 0 < b then PInf else NInf)"
| "fmul NInf (Fin b) = (if b = 0 then NaN else if 0 < b then NInf else PInf)"
| "fmul PInf PInf = PInf"
| "fmul NInf NInf = PInf"
| "fmul PInf NInf = NInf"
| "fmul NInf PInf = NInf"

text \<open>
  The quotient of two doubles, before Python's check of the divisor: C's \<^verbatim>\<open>/\<close>.
  It is only called with a non-zero divisor.
\<close>

fun c_div :: "pyfloat \<Rightarrow> pyfloat \<Rightarrow> pyfloat" where
  "c_div (Fin a) (Fin b) = fl_round (a / b)"
| "c_div NaN _ = NaN"
| "c_div _ NaN = NaN"
| "c_div (Fin a) _ = Fin 0"
| "c_div PInf (Fin b) = (if 0 \<le> b then PInf else NInf)"
| "c_div NInf (Fin b) = (if 0 \<le> b then NInf else PInf)"
| "c_div _ _ = NaN"

definition ftruediv :: "pyfloat \<Rightarrow> pyfloat \<Rightarrow> error + pyfloat" where
  \<comment> \<open>\<^verbatim>\<open>float.__truediv__\<close>: a zero divisor raises\<close>
  "ftruediv x y = (if y = Fin 0 then Inl ZeroDivisionError else Inr (c_div x y))"

text \<open>Comparisons: every comparison with NaN is false; an \<^verbatim>\<open>int\<close> operand is compared exactly.\<close>

fun flt :: "pyfloat \<Rightarrow> pyfloat \<Rightarrow> bool" where
  "flt (Fin a) (Fin b) = (a < b)"
| "flt NaN _ = False"
| "flt _ NaN = False"
| "flt _ NInf = False"
| "flt PInf _ = False"
| "flt _ _ = True"

definition feq :: "pyfloat \<Rightarrow> pyfloat \<Rightarrow> bool" where
  "feq x y = (x \<noteq> NaN \<and> x = y)"

definition fle :: "pyfloat \<Rightarrow> pyfloat \<Rightarrow> bool" where
  "fle x y = (flt x y \<or> feq x y)"

definition float_of_int :: "int \<Rightarrow> error + pyfloat" where
  \<comment> \<open>the conversion Python applies to the \<^verbatim>\<open>int\<close> operand of a mixed operation\<close>
  "float_of_int i = (case fl_round (of_int i) of Fin r \<Rightarrow> Inr (Fin r) | _ \<Rightarrow> Inl OverflowError)"

definition int_truediv :: "int \<Rightarrow> int \<Rightarrow> error + pyfloat" where
  \<comment> \<open>\<^verbatim>\<open>int / int\<close>: the correctly rounded quotient\<close>
  "int_truediv a b = (if b = 0 then Inl ZeroDivisionError
     else case fl_round (of_int a / of_int b) of Fin r \<Rightarrow> Inr (Fin r) | _ \<Rightarrow> Inl OverflowError)"

definition c_fmod :: "rat \<Rightarrow> rat \<Rightarrow> rat" where
  \<comment> \<open>C's \<^verbatim>\<open>fmod\<close> on finite operands, \<open>b \<noteq> 0\<close>: exact, with the sign of \<open>a\<close>\<close>
  "c_fmod a b = (let r = \<bar>a\<bar> - of_int \<lfloor>\<bar>a\<bar> / \<bar>b\<bar>\<rfloor> * \<bar>b\<bar> in if a < 0 then - r else r)"

definition frem :: "pyfloat \<Rightarrow> pyfloat \<Rightarrow> error + pyfloat" where
  \<comment> \<open>\<^verbatim>\<open>float.__mod__\<close> (\<^verbatim>\<open>float_rem\<close> of CPython)\<close>
  "frem x y = (case (x, y) of
       (_, Fin b) \<Rightarrow> (if b = 0 then Inl ZeroDivisionError else
          (case x of
             Fin a \<Rightarrow> (let m = c_fmod a b
                       in if m \<noteq> 0 \<and> ((b < 0) \<noteq> (m < 0)) then Inr (fadd (Fin m) (Fin b))
                          else Inr (Fin m))
           | _ \<Rightarrow> Inr NaN))
     | (_, NaN) \<Rightarrow> Inr NaN
     | (Fin a, PInf) \<Rightarrow> (if a < 0 then Inr PInf else Inr (Fin a))
     | (Fin a, NInf) \<Rightarrow> (if 0 < a then Inr NInf else Inr (Fin a))
     | _ \<Rightarrow> Inr NaN)"

definition c_floor :: "pyfloat \<Rightarrow> pyfloat" where
  "c_floor x = (case x of Fin a \<Rightarrow> Fin (of_int \<lfloor>a\<rfloor>) | _ \<Rightarrow> x)"

definition ffloordiv :: "pyfloat \<Rightarrow> pyfloat \<Rightarrow> error + pyfloat" where
  \<comment> \<open>\<^verbatim>\<open>float.__floordiv__\<close> (\<^verbatim>\<open>_float_div_mod\<close> of CPython), for a finite divisor\<close>
  "ffloordiv x y = (case y of
       Fin b \<Rightarrow> (if b = 0 then Inl ZeroDivisionError else
          (case x of
             Fin a \<Rightarrow>
               (let m = c_fmod a b;
                    d0 = c_div (fsub (Fin a) (Fin m)) (Fin b);
                    d = (if m \<noteq> 0 \<and> ((b < 0) \<noteq> (m < 0)) then fsub d0 (Fin 1) else d0)
                in if d = Fin 0 then Inr (Fin 0)
                   else let fd = c_floor d
                        in if flt (Fin (1 / 2)) (fsub d fd) then Inr (fadd fd (Fin 1)) else Inr fd)
           | _ \<Rightarrow> Inr NaN))
     | _ \<Rightarrow> Inr NaN)"

definition py_round :: "pyfloat \<Rightarrow> error + int" where
  \<comment> \<open>\<^verbatim>\<open>round(x)\<close> with one argument: to the nearest integer, ties to even\<close>
  "py_round x = (case x of Fin a \<Rightarrow> Inr (round_half_even a)
     | NaN \<Rightarrow> Inl ValueError | _ \<Rightarrow> Inl OverflowError)"

definition py_int :: "pyfloat \<Rightarrow> error + int" where
  \<comment> \<open>\<^verbatim>\<open>int(x)\<close>: truncation towards zero\<close>
  "py_int x = (case x of Fin a \<Rightarrow> Inr (if 0 \<le> a then \<lfloor>a\<rfloor> else \<lceil>a\<rceil>)
     | NaN \<Rightarrow> Inl ValueError | _ \<Rightarrow> Inl OverflowError)"

definition fsquare :: "pyfloat \<Rightarrow> error + pyfloat" where
  \<comment> \<open>\<^verbatim>\<open>x ** 2\<close>: a finite base whose square overflows raises\<close>
  "fsquare x = (case x of
       Fin a \<Rightarrow> (case fl_round (a * a) of Fin r \<Rightarrow> Inr (Fin r) | _ \<Rightarrow> Inl OverflowError)
     | NaN \<Rightarrow> Inr NaN
     | _ \<Rightarrow> Inr PInf)"

fun sqrt_bits :: "nat \<Rightarrow> int \<Rightarrow> int \<Rightarrow> int" where
  "sqrt_bits 0 n r = r"
| "sqrt_bits (Suc k) n r = (let c = r + 2 ^ k in sqrt_bits k n (if c * c \<le> n then c else r))"

definition isqrt :: "int \<Rightarrow> int" where
  \<comment> \<open>\<open>\<lfloor>\<surd>n\<rfloor>\<close> for \<open>n \<ge> 0\<close>, one bit at a time\<close>
  "isqrt n = sqrt_bits (nat (bitlen n)) n 0"

definition round_sqrt :: "rat \<Rightarrow> int" where
  \<comment> \<open>\<open>\<surd>s\<close> rounded to the nearest integer, ties to even, for \<open>s \<ge> 0\<close>\<close>
  "round_sqrt s = (let n = isqrt \<lfloor>s\<rfloor>; h = (of_int n + 1 / 2) * (of_int n + 1 / 2)
     in if s < h then n else if h < s then n + 1 else if even n then n else n + 1)"

definition fsqrt :: "pyfloat \<Rightarrow> pyfloat" where
  \<comment> \<open>\<^verbatim>\<open>x ** 0.5\<close>\<close>
  "fsqrt x = (case x of
       Fin a \<Rightarrow> (if a = 0 then Fin 0 else if a < 0 then NaN
                 else let q = ilog2 a div 2 - 52
                      in Fin (of_int (round_sqrt (a / pow2 (2 * q))) * pow2 q))
     | NaN \<Rightarrow> NaN
     | _ \<Rightarrow> PInf)"

text \<open>
  \<^verbatim>\<open>x ** 2\<close> and \<^verbatim>\<open>x ** 0.5\<close> are C's \<^verbatim>\<open>pow\<close>; they are modelled as the correctly
  rounded square and square root, from which the \<^verbatim>\<open>pow\<close> of a C library may differ in
  the last bit. For a finite negative base \<^verbatim>\<open>x ** 0.5\<close> is a complex number in
  Python; the program only takes the root of a mean of squares, so that the branch
  \<open>a < 0\<close> is never reached. \<^verbatim>\<open>sum\<close> over floats is modelled as the sequence of additions
  from left to right, starting from 0 (CPython before 3.12; later versions compensate
  the rounding errors of the partial sums). The properties below use the value of a sum,
  a square or a root only where it is exact, and otherwise only whether the square
  overflows.
\<close>

definition fsum :: "pyfloat list \<Rightarrow> pyfloat" where
  "fsum xs = foldl fadd (Fin 0) xs"

definition fl :: "rat \<Rightarrow> pyfloat" where
  \<comment> \<open>a decimal literal of the source\<close>
  "fl x = fl_round x"


section \<open>Strings\<close>

text \<open>
  A Python \<^verbatim>\<open>str\<close> is modelled as a \<open>string\<close> whose characters are the code points
  below 256 (Latin-1). The character classes below are those of Python on that range.
\<close>

definition code :: "char \<Rightarrow> nat" where
  "code c = of_char c"

definition lower_char :: "char \<Rightarrow> char" where
  "lower_char c = (let n = code c
     in if (65 \<le> n \<and> n \<le> 90) \<or> (192 \<le> n \<and> n \<le> 222 \<and> n \<noteq> 215) then char_of (n + 32) else c)"

definition lower :: "string \<Rightarrow> string" where
  \<comment> \<open>\<^verbatim>\<open>str.lower\<close>\<close>
  "lower s = map lower_char s"

definition is_digit :: "char \<Rightarrow> bool" where
  \<comment> \<open>\<^verbatim>\<open>\d\<close>, and the digits \<^verbatim>\<open>int\<close> accepts\<close>
  "is_digit c = (48 \<le> code c \<and> code c \<le> 57)"

definition is_space :: "char \<Rightarrow> bool" where
  \<comment> \<open>the whitespace that \<^verbatim>\<open>int\<close> strips from a string: the ASCII whitespace, and
      U+0085 and U+00A0, which \<^verbatim>\<open>int\<close> turns into spaces; not the separators U+001C to
      U+001F, although \<^verbatim>\<open>str.isspace\<close> holds of them\<close>
  "is_space c = (let n = code c
     in (9 \<le> n \<and> n \<le> 13) \<or> n = 32 \<or> n = 133 \<or> n = 160)"

definition is_word_char :: "char \<Rightarrow> bool" where
  \<comment> \<open>\<^verbatim>\<open>\w\<close>: alphanumeric or underscore\<close>
  "is_word_char c = (let n = code c
     in (48 \<le> n \<and> n \<le> 57) \<or> (65 \<le> n \<and> n \<le> 90) \<or> n = 95 \<or> (97 \<le> n \<and> n \<le> 122)
        \<or> n = 170 \<or> n = 178 \<or> n = 179 \<or> n = 181 \<or> n = 185 \<or> n = 186
        \<or> (188 \<le> n \<and> n \<le> 190) \<or> (192 \<le> n \<and> n \<le> 214) \<or> (216 \<le> n \<and> n \<le> 246)
        \<or> 248 \<le> n)"

definition digit_val :: "char \<Rightarrow> int" where
  "digit_val c = int (code c) - 48"

definition dec_val :: "string \<Rightarrow> int" where
  \<comment> \<open>the value of a string of decimal digits; other characters are skipped\<close>
  "dec_val s = foldl (\<lambda>n c. if is_digit c then 10 * n + digit_val c else n) 0 s"

definition boundary :: "string \<Rightarrow> nat \<Rightarrow> bool" where
  \<comment> \<open>\<^verbatim>\<open>\b\<close> at position \<open>i\<close>\<close>
  "boundary s i = ((0 < i \<and> is_word_char (s ! (i - 1))) \<noteq> (i < length s \<and> is_word_char (s ! i)))"

definition re_search_words :: "string list \<Rightarrow> string \<Rightarrow> bool" where
  \<comment> \<open>\<^verbatim>\<open>bool(re.search(r"\b(w1|w2|...)\b", s, re.IGNORECASE))\<close> for lower-case words\<close>
  "re_search_words ws s = list_ex (\<lambda>i. list_ex (\<lambda>w.
       boundary s i \<and> i + length w \<le> length s \<and> lower (take (length w) (drop i s)) = w
       \<and> boundary s (i + length w)) ws) [0..<Suc (length s)]"

fun split_from :: "char \<Rightarrow> string \<Rightarrow> string \<Rightarrow> string list" where
  "split_from sep acc [] = [rev acc]"
| "split_from sep acc (c # cs) =
     (if c = sep then rev acc # split_from sep [] cs else split_from sep (c # acc) cs)"

definition split :: "char \<Rightarrow> string \<Rightarrow> string list" where
  \<comment> \<open>\<^verbatim>\<open>s.split(sep)\<close> for a separator of one character\<close>
  "split sep s = split_from sep [] s"

fun strip_underscores :: "string \<Rightarrow> string option" where
  \<comment> \<open>digits separated by single underscores; \<open>None\<close> when malformed\<close>
  "strip_underscores [] = None"
| "strip_underscores [c] = (if is_digit c then Some [c] else None)"
| "strip_underscores (c # d # r) =
     (if \<not> is_digit c then None
      else if d = CHR ''_'' then map_option ((#) c) (strip_underscores r)
      else map_option ((#) c) (strip_underscores (d # r)))"

definition int_of_str :: "string \<Rightarrow> error + int" where
  \<comment> \<open>\<^verbatim>\<open>int(s)\<close> for a string: surrounding whitespace, a sign, digits with underscores;
      more than 4300 digits are refused\<close>
  "int_of_str s =
     (let s1 = rev (dropWhile is_space (rev (dropWhile is_space s)));
          neg = (take 1 s1 = ''-'');
          s2 = (if take 1 s1 = ''-'' \<or> take 1 s1 = ''+'' then drop 1 s1 else s1)
      in case strip_underscores s2 of
           None \<Rightarrow> Inl ValueError
         | Some ds \<Rightarrow> if 4300 < length ds then Inl ValueError
                      else Inr (if neg then - dec_val ds else dec_val ds))"

section \<open>Dates\<close>

text \<open>
  The value of \<^verbatim>\<open>datetime.datetime.strptime(s, "%Y-%m-%d")\<close>: a date at midnight, so
  that comparison, equality and difference in days are those of the calendar date.
\<close>

datatype pydate = Date (year: int) (month: int) (day: int)

definition is_leap :: "int \<Rightarrow> bool" where
  "is_leap y = (y mod 4 = 0 \<and> (y mod 100 \<noteq> 0 \<or> y mod 400 = 0))"

definition days_in_month :: "int \<Rightarrow> int \<Rightarrow> int" where
  "days_in_month y m = (if m = 2 \<and> is_leap y then 29
     else [0, 31, 28, 31, 30, 31, 30, 31, 31, 30, 31, 30, 31] ! nat m)"

definition days_before_year :: "int \<Rightarrow> int" where
  "days_before_year y = (let z = y - 1 in z * 365 + z div 4 - z div 100 + z div 400)"

definition days_before_month :: "int \<Rightarrow> int \<Rightarrow> int" where
  "days_before_month y m = [0, 0, 31, 59, 90, 120, 151, 181, 212, 243, 273, 304, 334] ! nat m
     + (if 2 < m \<and> is_leap y then 1 else 0)"

fun toordinal :: "pydate \<Rightarrow> int" where
  "toordinal (Date y m d) = days_before_year y + days_before_month y m + d"

definition make_date :: "int \<Rightarrow> int \<Rightarrow> int \<Rightarrow> error + pydate" where
  "make_date y m d = (if 1 \<le> y \<and> y \<le> 9999 \<and> 1 \<le> m \<and> m \<le> 12 \<and> 1 \<le> d \<and> d \<le> days_in_month y m
     then Inr (Date y m d) else Inl ValueError)"

text \<open>
  The regular expressions of \<^verbatim>\<open>_strptime\<close> for \<^verbatim>\<open>%m\<close> and \<^verbatim>\<open>%d\<close>. Each function
  lists the matches at the start of the string (matched text and rest) in the order in
  which the backtracking matcher tries the alternatives.
\<close>

definition in_range :: "nat \<Rightarrow> nat \<Rightarrow> char \<Rightarrow> bool" where
  "in_range lo hi c = (48 + lo \<le> code c \<and> code c \<le> 48 + hi)"

definition two_chars :: "(char \<Rightarrow> bool) \<Rightarrow> (char \<Rightarrow> bool) \<Rightarrow> string \<Rightarrow> (string \<times> string) list" where
  "two_chars P Q s = (case s of a # b # r \<Rightarrow> if P a \<and> Q b then [([a, b], r)] else [] | _ \<Rightarrow> [])"

definition one_char :: "(char \<Rightarrow> bool) \<Rightarrow> string \<Rightarrow> (string \<times> string) list" where
  "one_char P s = (case s of a # r \<Rightarrow> if P a then [([a], r)] else [] | _ \<Rightarrow> [])"

definition month_re :: "string \<Rightarrow> (string \<times> string) list" where
  \<comment> \<open>\<^verbatim>\<open>1[0-2]|0[1-9]|[1-9]\<close>\<close>
  "month_re s = two_chars (in_range 1 1) (in_range 0 2) s @ two_chars (in_range 0 0) (in_range 1 9) s
     @ one_char (in_range 1 9) s"

definition day_re :: "string \<Rightarrow> (string \<times> string) list" where
  \<comment> \<open>\<^verbatim>\<open>3[0-1]|[1-2]\d|0[1-9]|[1-9]| [1-9]\<close>\<close>
  "day_re s = two_chars (in_range 3 3) (in_range 0 1) s @ two_chars (in_range 1 2) is_digit s
     @ two_chars (in_range 0 0) (in_range 1 9) s @ one_char (in_range 1 9) s
     @ two_chars (\<lambda>c. c = CHR '' '') (in_range 1 9) s"

definition strptime :: "string \<Rightarrow> error + pydate" where
  \<comment> \<open>the format \<^verbatim>\<open>(\d\d\d\d)-(month)-(day)\<close> is matched at the start of the string; the first
      match must consume the whole string, and the date must exist\<close>
  "strptime s =
     (if length s < 4 \<or> \<not> list_all is_digit (take 4 s) then Inl ValueError
      else case [(m, d, r2). (m, r1) \<leftarrow> month_re (drop 5 s), take 1 (drop 4 s) = ''-'',
                             (d, r2) \<leftarrow> day_re (drop 1 r1), take 1 r1 = ''-''] of
             [] \<Rightarrow> Inl ValueError
           | (m, d, r2) # _ \<Rightarrow>
               if r2 \<noteq> [] then Inl ValueError
               else make_date (dec_val (take 4 s)) (dec_val m) (dec_val d))"


section \<open>Transactions and feature values\<close>

text \<open>
  Modelled from the spec: the class \<^verbatim>\<open>Transaction\<close> of \<^verbatim>\<open>recur_scan.transactions\<close>, which
  \<^verbatim>\<open>features.py\<close> imports, is not among the sources. Its fields are those of the data
  model of the specification; \<^verbatim>\<open>id\<close> is written \<open>tx_id\<close>.
\<close>

record transaction =
  tx_id :: int
  user_id :: string
  name :: string
  amount :: pyfloat
  date :: string

datatype pyval = VInt int | VFloat pyfloat | VBool bool

text \<open>
  A \<^verbatim>\<open>dict\<close> keeps its keys in insertion order; storing under a key that is present
  replaces the value in place. \<open>dict_merge d e\<close> is \<^verbatim>\<open>{**d, **e}\<close>.
\<close>

type_synonym pydict = "(string \<times> pyval) list"

definition dict_set :: "pydict \<Rightarrow> string \<Rightarrow> pyval \<Rightarrow> pydict" where
  "dict_set d k v = (if k \<in> set (map fst d)
     then map (\<lambda>(k', v'). if k' = k then (k', v) else (k', v')) d else d @ [(k, v)])"

definition dict_merge :: "pydict \<Rightarrow> pydict \<Rightarrow> pydict" where
  "dict_merge d e = foldl (\<lambda>d (k, v). dict_set d k v) d e"

definition dict_get :: "pydict \<Rightarrow> string \<Rightarrow> pyval option" where
  "dict_get d k = map_of d k"

definition keys :: "pydict \<Rightarrow> string list" where
  "keys d = map fst d"

section \<open>Helpers for comprehensions and built-ins\<close>

fun efilter :: "('a \<Rightarrow> error + bool) \<Rightarrow> 'a list \<Rightarrow> error + 'a list" where
  "efilter p [] = Inr []"
| "efilter p (x # xs) =
     ebind (p x) (\<lambda>b. ebind (efilter p xs) (\<lambda>ys. Inr (if b then x # ys else ys)))"

fun gaps :: "int list \<Rightarrow> int list" where
  \<comment> \<open>\<^verbatim>\<open>[(dates[i + 1] - dates[i]).days for i in range(len(dates) - 1)]\<close>\<close>
  "gaps (a # b # r) = (b - a) # gaps (b # r)"
| "gaps _ = []"

definition py_max :: "int list \<Rightarrow> error + int" where
  "py_max xs = (case xs of [] \<Rightarrow> Inl ValueError | x # r \<Rightarrow> Inr (fold max r x))"

definition py_min :: "int list \<Rightarrow> error + int" where
  "py_min xs = (case xs of [] \<Rightarrow> Inl ValueError | x # r \<Rightarrow> Inr (fold min r x))"

definition list_get :: "'a list \<Rightarrow> nat \<Rightarrow> error + 'a" where
  \<comment> \<open>\<^verbatim>\<open>xs[i]\<close> for \<open>i \<ge> 0\<close>\<close>
  "list_get xs i = (if i < length xs then Inr (xs ! i) else Inl IndexError)"

definition list_index :: "'a \<Rightarrow> 'a list \<Rightarrow> error + nat" where
  \<comment> \<open>\<^verbatim>\<open>xs.index(x)\<close>\<close>
  "list_index x xs = (if x \<in> set xs then Inr (length (takeWhile (\<lambda>y. y \<noteq> x) xs))
     else Inl ValueError)"

definition sorted_dates :: "pydate list \<Rightarrow> pydate list" where
  \<comment> \<open>\<^verbatim>\<open>sorted\<close> on dates: a stable sort; existing dates are ordered as their ordinals\<close>
  "sorted_dates ds = sort_key toordinal ds"

definition parse_dates :: "transaction list \<Rightarrow> error + pydate list" where
  \<comment> \<open>\<^verbatim>\<open>[datetime.datetime.strptime(t.date, "%Y-%m-%d") for t in ts]\<close>\<close>
  "parse_dates ts = emap (\<lambda>t. strptime (date t)) ts"

fun counter_add :: "pyfloat \<Rightarrow> (pyfloat \<times> nat) list \<Rightarrow> (pyfloat \<times> nat) list" where
  "counter_add x [] = [(x, 1)]"
| "counter_add x ((k, n) # r) = (if feq k x then (k, n + 1) # r else (k, n) # counter_add x r)"

definition counter :: "pyfloat list \<Rightarrow> (pyfloat \<times> nat) list" where
  \<comment> \<open>\<^verbatim>\<open>Counter(xs)\<close>: keys in first-seen order. Keys are found by \<^verbatim>\<open>==\<close>; that a container
      also finds a NaN by object identity is not modelled.\<close>
  "counter xs = foldl (\<lambda>c x. counter_add x c) [] xs"

definition most_common :: "nat \<Rightarrow> (pyfloat \<times> nat) list \<Rightarrow> (pyfloat \<times> nat) list" where
  \<comment> \<open>\<^verbatim>\<open>c.most_common(k)\<close>: by decreasing count, equal counts in first-seen order\<close>
  "most_common k c = take k (sort_key (\<lambda>p. - int (snd p)) c)"

definition pstd :: "pyfloat list \<Rightarrow> pyfloat \<Rightarrow> error + pyfloat" where
  \<comment> \<open>\<^verbatim>\<open>(sum((x - mean) ** 2 for x in xs) / len(xs)) ** 0.5\<close>\<close>
  "pstd xs mean =
     ebind (emap (\<lambda>x. fsquare (fsub x mean)) xs) (\<lambda>sq.
     ebind (float_of_int (int (length xs))) (\<lambda>n.
     ebind (ftruediv (fsum sq) n) (\<lambda>v. Inr (fsqrt v))))"

section \<open>The date cache\<close>

text \<open>
  \<^verbatim>\<open>_parse_date\<close> is wrapped in \<^verbatim>\<open>lru_cache(maxsize=1024)\<close>, the only state that outlives
  a call. The cache is the list of its entries, most recently used first. A hit moves
  the entry to the front; a miss calls the function and stores the result, dropping the
  least recently used entry of a full cache; an exception is not stored.
\<close>

type_synonym date_cache = "(string \<times> pydate) list"

type_synonym 'a comp = "date_cache \<Rightarrow> (error + 'a) \<times> date_cache"

definition pure_comp :: "error + 'a \<Rightarrow> 'a comp" where
  "pure_comp x c = (x, c)"

definition cbind :: "'a comp \<Rightarrow> ('a \<Rightarrow> 'b comp) \<Rightarrow> 'b comp" where
  "cbind m f c = (case m c of (Inl e, c') \<Rightarrow> (Inl e, c') | (Inr v, c') \<Rightarrow> f v c')"

definition parse_date :: "string \<Rightarrow> pydate comp" where
  \<comment> \<open>\<^verbatim>\<open>_parse_date\<close>\<close>
  "parse_date s c = (case map_of c s of
       Some d \<Rightarrow> (Inr d, (s, d) # filter (\<lambda>p. fst p \<noteq> s) c)
     | None \<Rightarrow> (case strptime s of
           Inl e \<Rightarrow> (Inl e, c)
         | Inr d \<Rightarrow> (Inr d, take 1024 ((s, d) # c))))"

section \<open>The features\<close>

definition get_is_always_recurring :: "transaction \<Rightarrow> bool" where
  "get_is_always_recurring t =
     (lower (name t) \<in> set [''google storage'', ''netflix'', ''hulu'', ''spotify''])"

definition get_is_insurance :: "transaction \<Rightarrow> bool" where
  "get_is_insurance t = re_search_words [''insurance'', ''insur'', ''insuranc''] (name t)"

definition get_is_utility :: "transaction \<Rightarrow> bool" where
  "get_is_utility t = re_search_words [''utility'', ''utilit'', ''energy''] (name t)"

definition get_is_phone :: "transaction \<Rightarrow> bool" where
  "get_is_phone t = re_search_words [''at&t'', ''t-mobile'', ''verizon''] (name t)"

fun days_apart_loop :: "pydate \<Rightarrow> int \<Rightarrow> int \<Rightarrow> transaction list \<Rightarrow> int \<Rightarrow> int comp" where
  "days_apart_loop td n off [] n_txs c = (Inr n_txs, c)"
| "days_apart_loop td n off (t # ts) n_txs c =
     (case parse_date (date t) c of
        (Inl e, c') \<Rightarrow> (Inl e, c')
      | (Inr t_date, c') \<Rightarrow>
          (let days_diff = \<bar>toordinal t_date - toordinal td\<bar>
           in if days_diff < n - off then days_apart_loop td n off ts n_txs c'
              else if n = 0 then (Inl ZeroDivisionError, c')
              else let remainder = days_diff mod n
                   in if remainder \<le> off \<or> remainder \<ge> n - off
                      then days_apart_loop td n off ts (n_txs + 1) c'
                      else days_apart_loop td n off ts n_txs c'))"

definition get_n_transactions_days_apart ::
  "transaction \<Rightarrow> transaction list \<Rightarrow> int \<Rightarrow> int \<Rightarrow> int comp" where
  "get_n_transactions_days_apart t all_transactions n_days_apart n_days_off =
     cbind (parse_date (date t)) (\<lambda>transaction_date.
       days_apart_loop transaction_date n_days_apart n_days_off all_transactions 0)"

definition get_pct_transactions_days_apart ::
  "transaction \<Rightarrow> transaction list \<Rightarrow> int \<Rightarrow> int \<Rightarrow> pyfloat comp" where
  "get_pct_transactions_days_apart t all_transactions n_days_apart n_days_off =
     cbind (get_n_transactions_days_apart t all_transactions n_days_apart n_days_off) (\<lambda>n.
       pure_comp (int_truediv n (int (length all_transactions))))"

definition get_day :: "string \<Rightarrow> error + int" where
  \<comment> \<open>\<^verbatim>\<open>_get_day\<close>\<close>
  "get_day d = ebind (list_get (split CHR ''-'' d) 2) int_of_str"

definition get_n_transactions_same_day ::
  "transaction \<Rightarrow> transaction list \<Rightarrow> int \<Rightarrow> error + int" where
  "get_n_transactions_same_day t all_transactions n_days_off =
     ebind (efilter (\<lambda>h. ebind (get_day (date h)) (\<lambda>a. ebind (get_day (date t)) (\<lambda>b.
                Inr (\<bar>a - b\<bar> \<le> n_days_off)))) all_transactions)
       (\<lambda>same. Inr (int (length same)))"

definition get_pct_transactions_same_day ::
  "transaction \<Rightarrow> transaction list \<Rightarrow> int \<Rightarrow> error + pyfloat" where
  "get_pct_transactions_same_day t all_transactions n_days_off =
     ebind (get_n_transactions_same_day t all_transactions n_days_off) (\<lambda>n.
       int_truediv n (int (length all_transactions)))"

definition get_ends_in_99 :: "transaction \<Rightarrow> error + bool" where
  \<comment> \<open>\<^verbatim>\<open>(transaction.amount * 100) % 100 == 99\<close>\<close>
  "get_ends_in_99 t = ebind (frem (fmul (amount t) (Fin 100)) (Fin 100)) (\<lambda>r. Inr (feq r (Fin 99)))"

definition get_n_transactions_same_amount :: "transaction \<Rightarrow> transaction list \<Rightarrow> int" where
  "get_n_transactions_same_amount t all_transactions =
     int (length (filter (\<lambda>h. feq (amount h) (amount t)) all_transactions))"

definition get_percent_transactions_same_amount ::
  "transaction \<Rightarrow> transaction list \<Rightarrow> error + pyfloat" where
  "get_percent_transactions_same_amount t all_transactions =
     (if all_transactions = [] then Inr (Fin 0)
      else int_truediv (int (length (filter (\<lambda>h. feq (amount h) (amount t)) all_transactions)))
             (int (length all_transactions)))"

definition get_frequency_features :: "transaction \<Rightarrow> transaction list \<Rightarrow> error + pydict" where
  "get_frequency_features t all_transactions =
     (let merchant_transactions = filter (\<lambda>h. name h = name t) all_transactions
      in if length merchant_transactions < 2
         then Inr [(''frequency'', VFloat (Fin 0)), (''date_variability'', VFloat (Fin 0)),
                   (''median_frequency'', VFloat (Fin 0)), (''std_frequency'', VFloat (Fin 0))]
         else
           ebind (parse_dates merchant_transactions) (\<lambda>ds.
           let dates = sorted_dates ds;
               date_diffs = gaps (map toordinal dates)
           in ebind (int_truediv (sum_list date_diffs) (int (length date_diffs))) (\<lambda>avg_frequency.
              ebind (list_get (sort date_diffs) (length date_diffs div 2)) (\<lambda>median_frequency.
              ebind (emap float_of_int date_diffs) (\<lambda>xs.
              ebind (pstd xs avg_frequency) (\<lambda>std_frequency.
              ebind (py_max date_diffs) (\<lambda>hi.
              ebind (py_min date_diffs) (\<lambda>lo.
                Inr [(''frequency'', VFloat avg_frequency), (''date_variability'', VInt (hi - lo)),
                     (''median_frequency'', VInt median_frequency),
                     (''std_frequency'', VFloat std_frequency)]))))))))"

definition is_valid_recurring_transaction :: "transaction \<Rightarrow> error + bool" where
  "is_valid_recurring_transaction t =
     (let vendor_name = lower (name t); a = amount t
      in if vendor_name = ''apple'' then
           ebind (py_round a) (\<lambda>r. ebind (float_of_int r) (\<lambda>rf.
             Inr (flt (fabs (fadd (fsub a rf) (fl (1 / 100)))) (fl (1 / 1000)))))
         else if vendor_name = ''brigit'' then Inr (feq a (fl (999 / 100)) \<or> feq a (fl (1499 / 100)))
         else if vendor_name = ''cleo ai'' then Inr (feq a (fl (399 / 100)) \<or> feq a (fl (699 / 100)))
         else if vendor_name = ''credit genie''
           then Inr (feq a (fl (349 / 100)) \<or> feq a (fl (499 / 100)))
         else if vendor_name \<in> set [''netflix'', ''spotify'', ''microsoft'', ''amazon prime'',
                   ''at&t'', ''verizon'', ''spectrum'', ''geico'', ''hugo insurance''] then Inr True
         else Inr True)"

definition get_amount_features :: "transaction \<Rightarrow> error + pydict" where
  "get_amount_features t =
     ebind (py_round (amount t)) (\<lambda>r.
     ebind (ffloordiv (amount t) (Fin 10)) (\<lambda>q.
     ebind (py_int q) (\<lambda>cat.
       Inr [(''is_amount_rounded'', VInt (if feq (amount t) (Fin (of_int r)) then 1 else 0)),
            (''amount_category'', VInt cat)])))"

definition mean_amount :: "transaction list \<Rightarrow> error + pyfloat" where
  \<comment> \<open>\<^verbatim>\<open>sum(t.amount for t in ts) / len(ts)\<close>\<close>
  "mean_amount ts = ebind (float_of_int (int (length ts))) (\<lambda>n. ftruediv (fsum (map amount ts)) n)"

definition get_vendor_features :: "transaction \<Rightarrow> transaction list \<Rightarrow> error + pydict" where
  "get_vendor_features t all_transactions =
     (let vendor_transactions = filter (\<lambda>h. name h = name t) all_transactions
      in ebind (if vendor_transactions \<noteq> [] then mean_amount vendor_transactions else Inr (Fin 0))
           (\<lambda>avg_amount.
             Inr [(''n_transactions_with_vendor'', VInt (int (length vendor_transactions))),
                  (''avg_amount_for_vendor'', VFloat avg_amount)]))"

definition get_time_features :: "transaction \<Rightarrow> transaction list \<Rightarrow> error + pydict" where
  "get_time_features t all_transactions =
     ebind (strptime (date t)) (\<lambda>date_obj.
     ebind (parse_dates (filter (\<lambda>h. name h = name t) all_transactions)) (\<lambda>ds.
     let dates = sorted_dates ds
     in ebind (list_index date_obj dates) (\<lambda>i.
        ebind (if int i < int (length dates) - 1
               then ebind (list_get dates (i + 1)) (\<lambda>next_transaction_date.
                      Inr (toordinal next_transaction_date - toordinal date_obj))
               else Inr 0) (\<lambda>days_until_next.
          Inr [(''month'', VInt (month date_obj)),
               (''days_until_next_transaction'', VInt days_until_next)]))))"

definition count_valid :: "transaction list \<Rightarrow> error + int" where
  \<comment> \<open>\<^verbatim>\<open>sum(1 for t in ts if is_valid_recurring_transaction(t))\<close>\<close>
  "count_valid ts = ebind (efilter is_valid_recurring_transaction ts) (\<lambda>v. Inr (int (length v)))"

definition get_user_recurrence_rate :: "transaction \<Rightarrow> transaction list \<Rightarrow> error + pydict" where
  "get_user_recurrence_rate t all_transactions =
     (let user_transactions = filter (\<lambda>h. user_id h = user_id t) all_transactions
      in if length user_transactions < 2 then Inr [(''user_recurrence_rate'', VFloat (Fin 0))]
         else ebind (count_valid user_transactions) (\<lambda>recurring_count.
              ebind (int_truediv recurring_count (int (length user_transactions))) (\<lambda>rate.
                Inr [(''user_recurrence_rate'', VFloat rate)])))"

definition get_user_specific_features :: "transaction \<Rightarrow> transaction list \<Rightarrow> error + pydict" where
  "get_user_specific_features t all_transactions =
     (let user_transactions = filter (\<lambda>h. user_id h = user_id t) all_transactions
      in if length user_transactions < 2
         then Inr [(''user_transaction_count'', VFloat (Fin 0)),
                   (''user_recurring_transaction_count'', VFloat (Fin 0)),
                   (''user_recurring_transaction_rate'', VFloat (Fin 0))]
         else ebind (count_valid user_transactions) (\<lambda>recurring_count.
              ebind (int_truediv recurring_count (int (length user_transactions))) (\<lambda>rate.
                Inr [(''user_transaction_count'', VInt (int (length user_transactions))),
                     (''user_recurring_transaction_count'', VInt recurring_count),
                     (''user_recurring_transaction_rate'', VFloat rate)])))"

definition get_user_recurring_vendor_count :: "transaction \<Rightarrow> transaction list \<Rightarrow> error + pydict" where
  "get_user_recurring_vendor_count t all_transactions =
     (let user_transactions = filter (\<lambda>h. user_id h = user_id t) all_transactions
      in ebind (efilter is_valid_recurring_transaction user_transactions) (\<lambda>v.
           Inr [(''user_recurring_vendor_count'', VInt (int (length (remdups (map name v)))))]))"

definition mean_gap :: "transaction list \<Rightarrow> error + pyfloat" where
  \<comment> \<open>the transactions sorted by their date string, parsed, and the mean of the gaps\<close>
  "mean_gap ts =
     ebind (parse_dates (sort_key date ts)) (\<lambda>dates.
     let date_diffs = gaps (map toordinal dates)
     in int_truediv (sum_list date_diffs) (int (length date_diffs)))"

definition get_user_transaction_frequency :: "transaction \<Rightarrow> transaction list \<Rightarrow> error + pydict" where
  "get_user_transaction_frequency t all_transactions =
     (let user_transactions = filter (\<lambda>h. user_id h = user_id t) all_transactions
      in if length user_transactions < 2 then Inr [(''user_transaction_frequency'', VFloat (Fin 0))]
         else ebind (mean_gap user_transactions) (\<lambda>avg_frequency.
                Inr [(''user_transaction_frequency'', VFloat avg_frequency)]))"

definition get_vendor_amount_std :: "transaction \<Rightarrow> transaction list \<Rightarrow> error + pydict" where
  "get_vendor_amount_std t all_transactions =
     (let vendor_transactions = filter (\<lambda>h. name h = name t) all_transactions
      in if length vendor_transactions < 2 then Inr [(''vendor_amount_std'', VFloat (Fin 0))]
         else ebind (mean_amount vendor_transactions) (\<lambda>mean.
              ebind (pstd (map amount vendor_transactions) mean) (\<lambda>std_amount.
                Inr [(''vendor_amount_std'', VFloat std_amount)])))"

definition get_vendor_recurring_user_count :: "transaction \<Rightarrow> transaction list \<Rightarrow> error + pydict" where
  "get_vendor_recurring_user_count t all_transactions =
     (let vendor_transactions = filter (\<lambda>h. name h = name t) all_transactions
      in ebind (efilter is_valid_recurring_transaction vendor_transactions) (\<lambda>v.
           Inr [(''vendor_recurring_user_count'', VInt (int (length (remdups (map user_id v)))))]))"

definition get_vendor_transaction_frequency :: "transaction \<Rightarrow> transaction list \<Rightarrow> error + pydict" where
  "get_vendor_transaction_frequency t all_transactions =
     (let vendor_transactions = filter (\<lambda>h. name h = name t) all_transactions
      in if length vendor_transactions < 2
         then Inr [(''vendor_transaction_frequency'', VFloat (Fin 0))]
         else ebind (mean_gap vendor_transactions) (\<lambda>avg_frequency.
                Inr [(''vendor_transaction_frequency'', VFloat avg_frequency)]))"

definition user_vendor :: "transaction \<Rightarrow> transaction list \<Rightarrow> transaction list" where
  \<comment> \<open>\<^verbatim>\<open>[t for t in all_transactions if t.user_id == transaction.user_id and t.name == transaction.name]\<close>\<close>
  "user_vendor t all_transactions =
     filter (\<lambda>h. user_id h = user_id t \<and> name h = name t) all_transactions"

definition get_user_vendor_transaction_count :: "transaction \<Rightarrow> transaction list \<Rightarrow> pydict" where
  "get_user_vendor_transaction_count t all_transactions =
     [(''user_vendor_transaction_count'', VInt (int (length (user_vendor t all_transactions))))]"

definition get_user_vendor_recurrence_rate :: "transaction \<Rightarrow> transaction list \<Rightarrow> error + pydict" where
  "get_user_vendor_recurrence_rate t all_transactions =
     (let user_vendor_transactions = user_vendor t all_transactions
      in if length user_vendor_transactions < 1 then Inr [(''user_vendor_recurrence_rate'', VFloat (Fin 0))]
         else ebind (count_valid user_vendor_transactions) (\<lambda>recurring_count.
              ebind (int_truediv recurring_count (int (length user_vendor_transactions))) (\<lambda>rate.
                Inr [(''user_vendor_recurrence_rate'', VFloat rate)])))"

definition get_user_vendor_interaction_count :: "transaction \<Rightarrow> transaction list \<Rightarrow> pydict" where
  "get_user_vendor_interaction_count t all_transactions =
     [(''user_vendor_interaction_count'', VInt (int (length (user_vendor t all_transactions))))]"

definition get_amount_category :: "transaction \<Rightarrow> pydict" where
  "get_amount_category t =
     (let a = amount t
      in if flt a (Fin 10) then [(''amount_category'', VInt 0)]
         else if fle (Fin 10) a \<and> flt a (Fin 20) then [(''amount_category'', VInt 1)]
         else if fle (Fin 20) a \<and> flt a (Fin 50) then [(''amount_category'', VInt 2)]
         else [(''amount_category'', VInt 3)])"

definition decimal_part :: "pyfloat \<Rightarrow> error + pyfloat" where
  \<comment> \<open>\<^verbatim>\<open>amount - int(amount)\<close>\<close>
  "decimal_part a = ebind (py_int a) (\<lambda>i. ebind (float_of_int i) (\<lambda>f. Inr (fsub a f)))"

definition get_amount_pattern_features :: "transaction \<Rightarrow> transaction list \<Rightarrow> error + pydict" where
  "get_amount_pattern_features t all_transactions =
     (let a = amount t;
          vendor_amounts = map amount (filter (\<lambda>h. name h = name t) all_transactions)
      in ebind (if list_ex (feq a) (map fl [599 / 100, 999 / 100, 1499 / 100, 1999 / 100,
                                           2999 / 100, 3999 / 100, 4999 / 100, 9999 / 100])
                then Inr True
                else ebind (decimal_part a) (\<lambda>p. Inr (fle (fl (98 / 100)) p)))
           (\<lambda>is_common_recurring_amount.
         let is_common_for_vendor =
               (if vendor_amounts \<noteq> []
                then list_ex (feq a) (map fst (most_common 3 (counter vendor_amounts)))
                else False)
         in ebind (decimal_part a) (\<lambda>p.
              Inr [(''is_common_recurring_amount'', VInt (if is_common_recurring_amount then 1 else 0)),
                   (''is_common_for_vendor'', VInt (if is_common_for_vendor then 1 else 0)),
                   (''amount_decimal_part'', VFloat p)])))"


definition fraction_in :: "int \<Rightarrow> int \<Rightarrow> int list \<Rightarrow> error + pyfloat" where
  \<comment> \<open>\<^verbatim>\<open>len([diff for diff in date_diffs if lo <= diff <= hi]) / len(date_diffs) if date_diffs else 0\<close>;
      the \<^verbatim>\<open>int\<close> \<^verbatim>\<open>0\<close> of the last branch stands as the equal \<^verbatim>\<open>float\<close>\<close>
  "fraction_in lo hi date_diffs =
     (if date_diffs \<noteq> []
      then int_truediv (int (length (filter (\<lambda>d. lo \<le> d \<and> d \<le> hi) date_diffs)))
             (int (length date_diffs))
      else Inr (Fin 0))"

definition get_temporal_consistency_features ::
  "transaction \<Rightarrow> transaction list \<Rightarrow> error + pydict" where
  "get_temporal_consistency_features t all_transactions =
     (let vendor_transactions = filter (\<lambda>h. name h = name t) all_transactions
      in if length vendor_transactions < 3
         then Inr [(''temporal_consistency_score'', VFloat (Fin 0)),
                   (''is_monthly_consistent'', VInt 0), (''is_weekly_consistent'', VInt 0)]
         else
           ebind (parse_dates vendor_transactions) (\<lambda>ds.
           let dates = sorted_dates ds;
               date_diffs = gaps (map toordinal dates)
           in ebind (fraction_in 28 31 date_diffs) (\<lambda>monthly_consistency.
              ebind (fraction_in 6 8 date_diffs) (\<lambda>weekly_consistency.
              ebind (ftruediv (fadd monthly_consistency weekly_consistency) (Fin 2)) (\<lambda>score.
                Inr [(''temporal_consistency_score'', VFloat score),
                     (''is_monthly_consistent'',
                        VInt (if flt (fl (7 / 10)) monthly_consistency then 1 else 0)),
                     (''is_weekly_consistent'',
                        VInt (if flt (fl (7 / 10)) weekly_consistency then 1 else 0))])))))"

definition get_vendor_recurrence_profile :: "transaction \<Rightarrow> transaction list \<Rightarrow> error + pydict" where
  "get_vendor_recurrence_profile t all_transactions =
     (let vendor_name = lower (name t);
          vendor_transactions = filter (\<lambda>h. lower (name h) = vendor_name) all_transactions;
          total_vendor_transactions = int (length vendor_transactions)
      in if total_vendor_transactions = 0
         then Inr [(''vendor_recurrence_score'', VFloat (Fin 0)),
                   (''vendor_recurrence_consistency'', VFloat (Fin 0)),
                   (''vendor_is_common_recurring'', VInt 0)]
         else
           ebind (efilter is_valid_recurring_transaction vendor_transactions) (\<lambda>v.
           let recurring_users = remdups (map user_id v);
               amount_counts = counter (map amount vendor_transactions)
           in ebind (if amount_counts \<noteq> []
                     then ebind (list_get (most_common 1 amount_counts) 0) (\<lambda>top.
                            int_truediv (int (snd top)) total_vendor_transactions)
                     else Inr (Fin 0)) (\<lambda>amount_consistency.
              ebind (int_truediv (int (length recurring_users))
                       (int (length (remdups (map user_id vendor_transactions))))) (\<lambda>score.
                Inr [(''vendor_recurrence_score'', VFloat score),
                     (''vendor_recurrence_consistency'', VFloat amount_consistency),
                     (''vendor_is_common_recurring'',
                        VInt (if vendor_name \<in> set [''netflix'', ''spotify'', ''microsoft'',
                                ''amazon prime'', ''at&t'', ''verizon'', ''spectrum'', ''geico'',
                                ''hugo insurance''] then 1 else 0))]))))"

definition get_user_vendor_relationship_features ::
  "transaction \<Rightarrow> transaction list \<Rightarrow> error + pydict" where
  "get_user_vendor_relationship_features t all_transactions =
     (let user_vendor_transactions = user_vendor t all_transactions;
          user_transactions = filter (\<lambda>h. user_id h = user_id t) all_transactions
      in if user_transactions = []
         then Inr [(''user_vendor_dependency'', VFloat (Fin 0)), (''user_vendor_tenure'', VFloat (Fin 0))]
         else
           ebind (int_truediv (int (length user_vendor_transactions))
                    (int (length user_transactions))) (\<lambda>dependency.
           ebind (if user_vendor_transactions \<noteq> []
                  then ebind (parse_dates user_vendor_transactions) (\<lambda>dates.
                       ebind (py_max (map toordinal dates)) (\<lambda>hi.
                       ebind (py_min (map toordinal dates)) (\<lambda>lo. Inr (hi - lo))))
                  else Inr 0) (\<lambda>tenure.
             Inr [(''user_vendor_dependency'', VFloat dependency), (''user_vendor_tenure'', VInt tenure),
                  (''user_vendor_transaction_span'', VInt tenure)])))"

text \<open>
  A dict display \<^verbatim>\<open>{**a, "k": v, ...}\<close> evaluates its items from left to right and
  merges each into the dict built so far; the first exception ends the evaluation.
\<close>

definition item :: "string \<Rightarrow> error + pyval \<Rightarrow> pydict comp" where
  "item k v = pure_comp (ebind v (\<lambda>x. Inr [(k, x)]))"

definition citem :: "string \<Rightarrow> pyval comp \<Rightarrow> pydict comp" where
  "citem k m = cbind m (\<lambda>x. pure_comp (Inr [(k, x)]))"

definition cmap :: "('a \<Rightarrow> 'b) \<Rightarrow> 'a comp \<Rightarrow> 'b comp" where
  "cmap f m = cbind m (\<lambda>x. pure_comp (Inr (f x)))"

fun dict_display :: "pydict comp list \<Rightarrow> pydict \<Rightarrow> pydict comp" where
  "dict_display [] d = pure_comp (Inr d)"
| "dict_display (m # ms) d = cbind m (\<lambda>e. dict_display ms (dict_merge d e))"

definition vint :: "error + int \<Rightarrow> error + pyval" where
  "vint x = ebind x (\<lambda>i. Inr (VInt i))"

definition vfloat :: "error + pyfloat \<Rightarrow> error + pyval" where
  "vfloat x = ebind x (\<lambda>f. Inr (VFloat f))"

definition vbool :: "error + bool \<Rightarrow> error + pyval" where
  "vbool x = ebind x (\<lambda>b. Inr (VBool b))"

definition get_features :: "transaction \<Rightarrow> transaction list \<Rightarrow> pydict comp" where
  "get_features t all_transactions = dict_display
     [pure_comp (get_user_recurring_vendor_count t all_transactions),
      pure_comp (get_user_transaction_frequency t all_transactions),
      pure_comp (get_vendor_amount_std t all_transactions),
      pure_comp (get_vendor_recurring_user_count t all_transactions),
      pure_comp (get_vendor_transaction_frequency t all_transactions),
      pure_comp (Inr (get_user_vendor_transaction_count t all_transactions)),
      pure_comp (get_user_vendor_recurrence_rate t all_transactions),
      pure_comp (Inr (get_user_vendor_interaction_count t all_transactions)),
      pure_comp (Inr (get_amount_category t)),
      pure_comp (get_amount_pattern_features t all_transactions),
      pure_comp (get_temporal_consistency_features t all_transactions),
      pure_comp (get_vendor_recurrence_profile t all_transactions),
      pure_comp (get_user_vendor_relationship_features t all_transactions),
      item ''n_transactions_same_amount'' (Inr (VInt (get_n_transactions_same_amount t all_transactions))),
      item ''percent_transactions_same_amount''
        (vfloat (get_percent_transactions_same_amount t all_transactions)),
      pure_comp (get_frequency_features t all_transactions),
      pure_comp (get_amount_features t),
      pure_comp (get_vendor_features t all_transactions),
      pure_comp (get_time_features t all_transactions),
      pure_comp (get_user_recurrence_rate t all_transactions),
      item ''is_recurring'' (vbool (is_valid_recurring_transaction t)),
      pure_comp (get_user_specific_features t all_transactions),
      item ''ends_in_99'' (vbool (get_ends_in_99 t)),
      item ''amount'' (Inr (VFloat (amount t))),
      item ''same_day_exact'' (vint (get_n_transactions_same_day t all_transactions 0)),
      item ''pct_transactions_same_day'' (vfloat (get_pct_transactions_same_day t all_transactions 0)),
      item ''same_day_off_by_1'' (vint (get_n_transactions_same_day t all_transactions 1)),
      item ''same_day_off_by_2'' (vint (get_n_transactions_same_day t all_transactions 2)),
      citem ''14_days_apart_exact'' (cmap VInt (get_n_transactions_days_apart t all_transactions 14 0)),
      citem ''pct_14_days_apart_exact''
        (cmap VFloat (get_pct_transactions_days_apart t all_transactions 14 0)),
      citem ''14_days_apart_off_by_1'' (cmap VInt (get_n_transactions_days_apart t all_transactions 14 1)),
      citem ''pct_14_days_apart_off_by_1''
        (cmap VFloat (get_pct_transactions_days_apart t all_transactions 14 1)),
      citem ''7_days_apart_exact'' (cmap VInt (get_n_transactions_days_apart t all_transactions 7 0)),
      citem ''pct_7_days_apart_exact''
        (cmap VFloat (get_pct_transactions_days_apart t all_transactions 7 0)),
      citem ''7_days_apart_off_by_1'' (cmap VInt (get_n_transactions_days_apart t all_transactions 7 1)),
      citem ''pct_7_days_apart_off_by_1''
        (cmap VFloat (get_pct_transactions_days_apart t all_transactions 7 1)),
      item ''is_insurance'' (Inr (VBool (get_is_insurance t))),
      item ''is_utility'' (Inr (VBool (get_is_utility t))),
      item ''is_phone'' (Inr (VBool (get_is_phone t))),
      item ''is_always_recurring'' (Inr (VBool (get_is_always_recurring t)))]
     []"


section \<open>Example inputs and the wording of the specification\<close>

definition netflix_tx :: transaction where
  "netflix_tx = \<lparr>tx_id = 1, user_id = ''u1'', name = ''Netflix'', amount = fl (1599 / 100),
     date = ''2024-03-01''\<rparr>"

text \<open>
  The check of the specification, \<^verbatim>\<open>round(amount*100) mod 100 == 99\<close>, to be compared with
  \<open>get_ends_in_99\<close>.
\<close>

definition ends_in_99_rounded :: "transaction \<Rightarrow> error + bool" where
  "ends_in_99_rounded t = ebind (py_round (fmul (amount t) (Fin 100))) (\<lambda>r. Inr (r mod 100 = 99))"

definition brigit_tx :: transaction where
  "brigit_tx = \<lparr>tx_id = 2, user_id = ''u1'', name = ''Brigit'', amount = fl (999 / 100),
     date = ''2024-03-01''\<rparr>"

section \<open>Values without the cache\<close>

text \<open>
  A cache is sound when every entry holds the date that parsing its key gives; the
  empty cache of a fresh process is sound. \<open>count_days_apart\<close> is the loop of
  \<open>get_n_transactions_days_apart\<close> with the parser called directly: the value the loop
  has on a sound cache.
\<close>

definition cache_ok :: "date_cache \<Rightarrow> bool" where
  "cache_ok c = list_all (\<lambda>p. strptime (fst p) = Inr (snd p)) c"

fun count_days_apart :: "pydate \<Rightarrow> int \<Rightarrow> int \<Rightarrow> transaction list \<Rightarrow> int \<Rightarrow> error + int" where
  "count_days_apart td n off [] n_txs = Inr n_txs"
| "count_days_apart td n off (t # ts) n_txs =
     (case strptime (date t) of
        Inl e \<Rightarrow> Inl e
      | Inr t_date \<Rightarrow>
          (let days_diff = \<bar>toordinal t_date - toordinal td\<bar>
           in if days_diff < n - off then count_days_apart td n off ts n_txs
              else if n = 0 then Inl ZeroDivisionError
              else let remainder = days_diff mod n
                   in if remainder \<le> off \<or> remainder \<ge> n - off
                      then count_days_apart td n off ts (n_txs + 1)
                      else count_days_apart td n off ts n_txs))"

definition cache_free :: "'a comp \<Rightarrow> bool" where
  "cache_free m = (\<exists>v. \<forall>c. cache_ok c \<longrightarrow> fst (m c) = v \<and> cache_ok (snd (m c)))"

text \<open>
  The consecutive day gaps of the vendor group, as \<open>get_frequency_features\<close> and
  \<open>get_temporal_consistency_features\<close> compute them, and the element the specification
  names as the median.
\<close>

definition vendor_gaps :: "transaction \<Rightarrow> transaction list \<Rightarrow> error + int list" where
  "vendor_gaps t all_transactions =
     ebind (parse_dates (filter (\<lambda>h. name h = name t) all_transactions)) (\<lambda>ds.
       Inr (gaps (map toordinal (sorted_dates ds))))"

definition lower_middle :: "int list \<Rightarrow> int" where
  "lower_middle g = sort g ! ((length g - 1) div 2)"

definition spotify_history :: "transaction list" where
  "spotify_history =
     [\<lparr>tx_id = 1, user_id = ''u1'', name = ''Spotify'', amount = fl (999 / 100), date = ''2024-01-01''\<rparr>,
      \<lparr>tx_id = 2, user_id = ''u1'', name = ''Spotify'', amount = fl (999 / 100), date = ''2024-01-29''\<rparr>,
      \<lparr>tx_id = 3, user_id = ''u1'', name = ''Spotify'', amount = fl (999 / 100), date = ''2024-02-26''\<rparr>]"

definition uneven_history :: "transaction list" where
  "uneven_history =
     [netflix_tx, netflix_tx\<lparr>date := ''2024-03-02''\<rparr>, netflix_tx\<lparr>date := ''2024-03-05''\<rparr>]"






section \<open>Properties\<close>

text \<open>
  C1. The claim: on an empty history every percentage feature is \<open>0.0\<close> and nothing is
  raised. Only \<^verbatim>\<open>get_percent_transactions_same_amount\<close> guards the empty history; the two
  functions the claim names divide by \<^verbatim>\<open>len(all_transactions)\<close> and raise
  \<^verbatim>\<open>ZeroDivisionError\<close>, and \<^verbatim>\<open>get_features\<close> raises before it reaches them.
\<close>

theorem pct_features_raise_on_empty_history:
  "get_pct_transactions_same_day t [] n_days_off = Inl ZeroDivisionError
   \<and> fst (get_pct_transactions_days_apart netflix_tx [] 7 1 []) = Inl ZeroDivisionError
   \<and> get_percent_transactions_same_amount t [] = Inr (Fin 0)
   \<and> fst (get_features netflix_tx [] []) = Inl ValueError"
proof -
  have a: "get_pct_transactions_same_day t [] n_days_off = Inl ZeroDivisionError"
    by (simp add: get_pct_transactions_same_day_def get_n_transactions_same_day_def ebind_def
        int_truediv_def)
  have b: "fst (get_pct_transactions_days_apart netflix_tx [] 7 1 []) = Inl ZeroDivisionError"
    by code_simp
  have c: "get_percent_transactions_same_amount t [] = Inr (Fin 0)"
    by (simp add: get_percent_transactions_same_amount_def)
  have d: "fst (get_features netflix_tx [] []) = Inl ValueError"
    by code_simp
  show ?thesis using a b c d by simp
qed

text \<open>
  C2. The claim: the mapping of \<^verbatim>\<open>get_features\<close> holds two amount buckets under disjoint
  keys. Both scorers use the key \<^verbatim>\<open>amount_category\<close>; for the amount \<open>55.0\<close> the threshold
  bucket is 3, and the mapping holds the key once, with \<open>\<lfloor>55 / 10\<rfloor> = 5\<close>.
\<close>

theorem amount_category_key_overwritten:
  "get_amount_category (netflix_tx\<lparr>amount := Fin 55\<rparr>) = [(''amount_category'', VInt 3)]
   \<and> (case fst (get_features (netflix_tx\<lparr>amount := Fin 55\<rparr>) [netflix_tx\<lparr>amount := Fin 55\<rparr>] []) of
        Inl e \<Rightarrow> False
      | Inr d \<Rightarrow> dict_get d ''amount_category'' = Some (VInt 5)
                 \<and> count_list (keys d) ''amount_category'' = 1)"
  by code_simp

text \<open>
  C3. The claim: the key set is fixed, and \<^verbatim>\<open>user_vendor_transaction_span\<close> is present when the
  target's user has no transaction in the history. With a history that holds the same
  vendor and date under another user, \<^verbatim>\<open>get_features\<close> returns 54 keys without it; with
  the target in the history it returns 55 keys with it.
\<close>

theorem transaction_span_key_omitted:
  "(case fst (get_features netflix_tx [netflix_tx\<lparr>user_id := ''u2''\<rparr>] []) of
      Inl e \<Rightarrow> False
    | Inr d \<Rightarrow> dict_get d ''user_vendor_transaction_span'' = None \<and> length (keys d) = 54)
   \<and> (case fst (get_features netflix_tx [netflix_tx] []) of
        Inl e \<Rightarrow> False
      | Inr d \<Rightarrow> dict_get d ''user_vendor_transaction_span'' = Some (VInt 0) \<and> length (keys d) = 55)"
  by code_simp

text \<open>
  C8. The scenario of the claim holds for the amount \<open>15.99\<close>. The check is not computed
  with \<^verbatim>\<open>round\<close>: for the amount \<open>19.99\<close> the product \<^verbatim>\<open>amount * 100\<close> is
  \<open>1998.9999999999998\<close>, \<^verbatim>\<open>get_ends_in_99\<close> is false, and the rounded check of the
  claim is true.
\<close>

theorem ends_in_99_without_rounding:
  "(case fst (get_features netflix_tx [netflix_tx] []) of
      Inl e \<Rightarrow> False
    | Inr d \<Rightarrow> dict_get d ''is_always_recurring'' = Some (VBool True)
               \<and> dict_get d ''n_transactions_same_amount'' = Some (VInt 1)
               \<and> dict_get d ''percent_transactions_same_amount'' = Some (VFloat (Fin 1))
               \<and> dict_get d ''ends_in_99'' = Some (VBool True))
   \<and> get_ends_in_99 (netflix_tx\<lparr>amount := fl (1999 / 100)\<rparr>) = Inr False
   \<and> ends_in_99_rounded (netflix_tx\<lparr>amount := fl (1999 / 100)\<rparr>) = Inr True"
  by code_simp

lemma fl_999: "fl (999 / 100) = Fin (5623870034678907 / 562949953421312)" by code_simp
lemma fl_1499: "fl (1499 / 100) = Fin (8438619801785467 / 562949953421312)" by code_simp

text \<open>
  C4. A vendor whose lower-cased name is none of \<^verbatim>\<open>apple\<close>, \<^verbatim>\<open>brigit\<close>, \<^verbatim>\<open>cleo ai\<close>,
  \<^verbatim>\<open>credit genie\<close> is accepted; for \<^verbatim>\<open>brigit\<close> the result is true exactly when the amount
  is the float \<open>9.99\<close> or the float \<open>14.99\<close>.
\<close>

theorem is_valid_recurring_default_and_brigit:
  "(lower (name t) \<notin> {''apple'', ''brigit'', ''cleo ai'', ''credit genie''}
      \<longrightarrow> is_valid_recurring_transaction t = Inr True)
   \<and> (lower (name t) = ''brigit''
      \<longrightarrow> is_valid_recurring_transaction t
          = Inr (amount t = fl (999 / 100) \<or> amount t = fl (1499 / 100)))"
  by (auto simp add: is_valid_recurring_transaction_def Let_def feq_def fl_999 fl_1499)

theorem is_valid_recurring_default_and_brigit_witness:
  "lower (name netflix_tx) \<notin> {''apple'', ''brigit'', ''cleo ai'', ''credit genie''}
   \<and> is_valid_recurring_transaction netflix_tx = Inr True
   \<and> lower (name brigit_tx) = ''brigit''
   \<and> is_valid_recurring_transaction brigit_tx = Inr True"
proof -
  have h1: "lower (name netflix_tx) \<notin> {''apple'', ''brigit'', ''cleo ai'', ''credit genie''}"
    by code_simp
  have h2: "lower (name brigit_tx) = ''brigit''"
    by code_simp
  have a: "amount brigit_tx = fl (999 / 100)"
    by (simp add: brigit_tx_def)
  from is_valid_recurring_default_and_brigit [of netflix_tx] h1
  have c1: "is_valid_recurring_transaction netflix_tx = Inr True" by blast
  from is_valid_recurring_default_and_brigit [of brigit_tx] h2 a
  have c2: "is_valid_recurring_transaction brigit_tx = Inr True" by simp
  show ?thesis using h1 h2 c1 c2 by simp
qed

subsection \<open>The cache does not change a result\<close>

lemma cache_ok_Nil: "cache_ok []"
  by (simp add: cache_ok_def)

lemma parse_date_cached:
  assumes "cache_ok c"
  shows "fst (parse_date s c) = strptime s \<and> cache_ok (snd (parse_date s c))"
proof (cases "map_of c s")
  case None
  show ?thesis
  proof (cases "strptime s")
    case (Inl e)
    with None assms show ?thesis by (simp add: parse_date_def)
  next
    case (Inr d)
    have "list_all (\<lambda>p. strptime (fst p) = Inr (snd p)) (take 1023 c)"
      using assms unfolding cache_ok_def list_all_iff by (meson in_set_takeD)
    with None Inr show ?thesis
      by (simp add: parse_date_def cache_ok_def take_Cons')
  qed
next
  case (Some d)
  then have "(s, d) \<in> set c" by (rule map_of_SomeD)
  with assms have "strptime s = Inr d"
    unfolding cache_ok_def list_all_iff by fastforce
  moreover have "list_all (\<lambda>p. strptime (fst p) = Inr (snd p)) (filter (\<lambda>p. fst p \<noteq> s) c)"
    using assms unfolding cache_ok_def list_all_iff by simp
  ultimately show ?thesis using Some
    by (simp add: parse_date_def cache_ok_def)
qed

lemma days_apart_loop_cached:
  "cache_ok c \<Longrightarrow>
     fst (days_apart_loop td n off ts k c) = count_days_apart td n off ts k
     \<and> cache_ok (snd (days_apart_loop td n off ts k c))"
proof (induction ts arbitrary: k c)
  case Nil
  then show ?case by simp
next
  case (Cons t ts)
  obtain r c' where "parse_date (date t) c = (r, c')" by (cases "parse_date (date t) c")
  with parse_date_cached [OF Cons.prems, of "date t"]
  have p: "parse_date (date t) c = (strptime (date t), c')" and ok: "cache_ok c'" by simp_all
  show ?case
  proof (cases "strptime (date t)")
    case (Inl e)
    with p ok show ?thesis by simp
  next
    case (Inr d)
    with p ok Cons.IH [OF ok] show ?thesis
      by (simp add: Let_def)
  qed
qed

lemma get_n_transactions_days_apart_cached:
  assumes "cache_ok c"
  shows "fst (get_n_transactions_days_apart t ts n off c)
           = ebind (strptime (date t)) (\<lambda>td. count_days_apart td n off ts 0)
         \<and> cache_ok (snd (get_n_transactions_days_apart t ts n off c))"
proof -
  obtain r c' where "parse_date (date t) c = (r, c')" by (cases "parse_date (date t) c")
  with parse_date_cached [OF assms, of "date t"]
  have p: "parse_date (date t) c = (strptime (date t), c')" and ok: "cache_ok c'" by simp_all
  show ?thesis
  proof (cases "strptime (date t)")
    case (Inl e)
    with p ok show ?thesis
      by (simp add: get_n_transactions_days_apart_def cbind_def ebind_def)
  next
    case (Inr d)
    with p ok days_apart_loop_cached [OF ok, of d n off ts 0] show ?thesis
      by (simp add: get_n_transactions_days_apart_def cbind_def ebind_def)
  qed
qed

lemma count_days_apart_mono:
  "0 < n \<Longrightarrow> off1 \<le> off2 \<Longrightarrow> a \<le> b \<Longrightarrow> count_days_apart td n off1 ts a = Inr k1 \<Longrightarrow>
     \<exists>k2. count_days_apart td n off2 ts b = Inr k2 \<and> k1 \<le> k2"
proof (induction ts arbitrary: a b)
  case Nil
  then show ?case by simp
next
  case (Cons t ts)
  from Cons.prems(4) obtain d where d: "strptime (date t) = Inr d"
    by (cases "strptime (date t)") simp_all
  define x where "x = \<bar>toordinal d - toordinal td\<bar>"
  let ?hit1 = "\<not> x < n - off1 \<and> (x mod n \<le> off1 \<or> n - off1 \<le> x mod n)"
  let ?hit2 = "\<not> x < n - off2 \<and> (x mod n \<le> off2 \<or> n - off2 \<le> x mod n)"
  have imp: "?hit1 \<Longrightarrow> ?hit2" using Cons.prems(2) by auto
  have s1: "count_days_apart td n off1 (t # ts) a
              = count_days_apart td n off1 ts (if ?hit1 then a + 1 else a)"
    using d Cons.prems(1) by (simp add: Let_def x_def)
  have s2: "count_days_apart td n off2 (t # ts) b
              = count_days_apart td n off2 ts (if ?hit2 then b + 1 else b)"
    using d Cons.prems(1) by (simp add: Let_def x_def)
  have le: "(if ?hit1 then a + 1 else a) \<le> (if ?hit2 then b + 1 else b)"
    using imp Cons.prems(3) by auto
  from Cons.prems(4) s1
  have "count_days_apart td n off1 ts (if ?hit1 then a + 1 else a) = Inr k1" by simp
  from Cons.IH [OF Cons.prems(1) Cons.prems(2) le this] s2 show ?case by simp
qed


text \<open>
  C6. For a positive interval the count of \<open>get_n_transactions_days_apart\<close> does not
  decrease when the tolerance grows: if the call with the smaller tolerance returns a
  count, the call with the larger one returns a count at least as large.
\<close>

theorem days_apart_count_mono_in_tolerance:
  assumes "cache_ok c1" and "cache_ok c2" and "0 < n" and "tol1 \<le> tol2"
    and "fst (get_n_transactions_days_apart t ts n tol1 c1) = Inr k1"
  shows "\<exists>k2. fst (get_n_transactions_days_apart t ts n tol2 c2) = Inr k2 \<and> k1 \<le> k2"
proof -
  from assms(5) get_n_transactions_days_apart_cached [OF assms(1), of t ts n tol1]
  have v: "ebind (strptime (date t)) (\<lambda>td. count_days_apart td n tol1 ts 0) = Inr k1" by simp
  then obtain td where td: "strptime (date t) = Inr td"
    by (cases "strptime (date t)") (simp_all add: ebind_def)
  with v have "count_days_apart td n tol1 ts 0 = Inr k1" by (simp add: ebind_def)
  from count_days_apart_mono [OF assms(3) assms(4) order_refl this]
  obtain k2 where "count_days_apart td n tol2 ts 0 = Inr k2" and "k1 \<le> k2" by blast
  with td get_n_transactions_days_apart_cached [OF assms(2), of t ts n tol2]
  show ?thesis by (simp add: ebind_def)
qed

theorem days_apart_count_mono_in_tolerance_witness:
  "cache_ok [] \<and> (0 :: int) < 7 \<and> (0 :: int) \<le> 1
   \<and> fst (get_n_transactions_days_apart netflix_tx
        [netflix_tx, netflix_tx\<lparr>date := ''2024-03-15''\<rparr>, netflix_tx\<lparr>date := ''2024-03-09''\<rparr>]
        7 0 []) = Inr 1
   \<and> (\<exists>k2. fst (get_n_transactions_days_apart netflix_tx
        [netflix_tx, netflix_tx\<lparr>date := ''2024-03-15''\<rparr>, netflix_tx\<lparr>date := ''2024-03-09''\<rparr>]
        7 1 []) = Inr k2 \<and> 1 \<le> k2)"
proof -
  have h: "fst (get_n_transactions_days_apart netflix_tx
        [netflix_tx, netflix_tx\<lparr>date := ''2024-03-15''\<rparr>, netflix_tx\<lparr>date := ''2024-03-09''\<rparr>]
        7 0 []) = Inr 1"
    by code_simp
  have p: "(0 :: int) < 7" and q: "(0 :: int) \<le> 1" by simp_all
  from days_apart_count_mono_in_tolerance [OF cache_ok_Nil cache_ok_Nil p q h] h cache_ok_Nil
  show ?thesis by simp
qed

lemma cache_free_pure: "cache_free (pure_comp x)"
  unfolding cache_free_def pure_comp_def by auto

lemma cache_free_cbind:
  assumes "cache_free m" and "\<And>v. cache_free (f v)"
  shows "cache_free (cbind m f)"
proof -
  from assms(1) obtain r where r: "\<And>c. cache_ok c \<Longrightarrow> fst (m c) = r \<and> cache_ok (snd (m c))"
    unfolding cache_free_def by blast
  show ?thesis
  proof (cases r)
    case (Inl e)
    have "\<And>c. cache_ok c \<Longrightarrow> fst (cbind m f c) = Inl e \<and> cache_ok (snd (cbind m f c))"
    proof -
      fix c assume "cache_ok c"
      from r [OF this] Inl show "fst (cbind m f c) = Inl e \<and> cache_ok (snd (cbind m f c))"
        by (cases "m c") (simp add: cbind_def)
    qed
    then show ?thesis unfolding cache_free_def by blast
  next
    case (Inr a)
    from assms(2) [of a] obtain w
      where w: "\<And>c. cache_ok c \<Longrightarrow> fst (f a c) = w \<and> cache_ok (snd (f a c))"
      unfolding cache_free_def by blast
    have "\<And>c. cache_ok c \<Longrightarrow> fst (cbind m f c) = w \<and> cache_ok (snd (cbind m f c))"
    proof -
      fix c assume "cache_ok c"
      from r [OF this] Inr w [of "snd (m c)"]
      show "fst (cbind m f c) = w \<and> cache_ok (snd (cbind m f c))"
        by (cases "m c") (simp add: cbind_def)
    qed
    then show ?thesis unfolding cache_free_def by blast
  qed
qed

lemma cache_free_get_n: "cache_free (get_n_transactions_days_apart t ts n off)"
  unfolding cache_free_def using get_n_transactions_days_apart_cached by blast

lemma cache_free_get_pct: "cache_free (get_pct_transactions_days_apart t ts n off)"
  unfolding get_pct_transactions_days_apart_def
  by (intro cache_free_cbind cache_free_get_n cache_free_pure)

lemma cache_free_item: "cache_free (item k v)"
  unfolding item_def by (rule cache_free_pure)

lemma cache_free_citem: "cache_free m \<Longrightarrow> cache_free (citem k (cmap f m))"
  unfolding citem_def cmap_def by (intro cache_free_cbind cache_free_pure)

lemma cache_free_dict_display:
  "list_all cache_free ms \<Longrightarrow> cache_free (dict_display ms d)"
proof (induction ms arbitrary: d)
  case Nil
  then show ?case by (simp add: cache_free_pure)
next
  case (Cons m ms)
  then show ?case by (simp add: cache_free_cbind)
qed

lemma cache_free_get_features: "cache_free (get_features t ts)"
  unfolding get_features_def
  by (rule cache_free_dict_display)
     (simp add: cache_free_pure cache_free_item cache_free_citem cache_free_get_n
        cache_free_get_pct)

text \<open>
  C9. The date cache is the only state that outlives a call. Started on a sound cache,
  \<open>get_features\<close> leaves a sound cache, and a second call on the cache the first one
  left gives the same result, the mapping or the exception. The history is an argument
  that no function of the program assigns to; in the model it is a value.
\<close>

theorem get_features_twice_same_result:
  assumes "cache_ok c" and "get_features t ts c = (r1, c1)" and "get_features t ts c1 = (r2, c2)"
  shows "r2 = r1 \<and> cache_ok c1 \<and> cache_ok c2"
proof -
  from cache_free_get_features [of t ts] obtain v
    where v: "\<And>c. cache_ok c \<Longrightarrow> fst (get_features t ts c) = v \<and> cache_ok (snd (get_features t ts c))"
    unfolding cache_free_def by blast
  from v [OF assms(1)] assms(2) have a: "r1 = v" and b: "cache_ok c1" by simp_all
  from v [OF b] assms(3) have "r2 = v" and "cache_ok c2" by simp_all
  with a b show ?thesis by simp
qed

theorem get_features_twice_same_result_witness:
  "cache_ok []
   \<and> fst (get_features netflix_tx [netflix_tx]
        (snd (get_features netflix_tx [netflix_tx] []))) = fst (get_features netflix_tx [netflix_tx] [])
   \<and> cache_ok (snd (get_features netflix_tx [netflix_tx] []))"
proof -
  have a: "get_features netflix_tx [netflix_tx] []
     = (fst (get_features netflix_tx [netflix_tx] []), snd (get_features netflix_tx [netflix_tx] []))"
    by simp
  have b: "get_features netflix_tx [netflix_tx] (snd (get_features netflix_tx [netflix_tx] []))
     = (fst (get_features netflix_tx [netflix_tx] (snd (get_features netflix_tx [netflix_tx] []))),
        snd (get_features netflix_tx [netflix_tx] (snd (get_features netflix_tx [netflix_tx] []))))"
    by simp
  from get_features_twice_same_result [OF cache_ok_Nil a b] cache_ok_Nil
  show ?thesis by simp
qed

subsection \<open>Rounding to binary64\<close>

lemma pow2_powi: "pow2 k = 2 powi k"
  by (simp add: pow2_def power_int_def field_simps)

lemma pow2_pos: "0 < pow2 k"
  by (simp add: pow2_powi)

lemma pow2_add: "pow2 (a + b) = pow2 a * pow2 b"
  by (simp add: pow2_powi power_int_add)

lemma pow2_diff: "pow2 (a - b) = pow2 a / pow2 b"
  by (simp add: pow2_powi power_int_diff)

lemma pow2_mono: "a \<le> b \<Longrightarrow> pow2 a \<le> pow2 b"
  by (simp add: pow2_powi power_int_increasing)

lemma pow2_strict_mono: "a < b \<Longrightarrow> pow2 a < pow2 b"
  by (simp add: pow2_powi power_int_strict_increasing)

lemma bitlen_rat_bounds:
  assumes "0 < p"
  shows "pow2 (bitlen p - 1) \<le> of_int p" and "of_int p < pow2 (bitlen p)"
proof -
  from bitlen_bounds [OF assms]
  have a: "2 ^ nat (bitlen p - 1) \<le> p" and b: "p < 2 ^ nat (bitlen p)" by simp_all
  have c: "1 \<le> bitlen p" using assms by (simp add: bitlen_alt_def)
  from a have "(of_int (2 ^ nat (bitlen p - 1)) :: rat) \<le> of_int p" by (simp only: of_int_le_iff)
  with c show "pow2 (bitlen p - 1) \<le> of_int p" by (simp add: pow2_def)
  from b have "(of_int p :: rat) < of_int (2 ^ nat (bitlen p))" by (simp only: of_int_less_iff)
  with c show "of_int p < pow2 (bitlen p)" by (simp add: pow2_def)
qed

lemma ilog2_bounds:
  assumes "x \<noteq> 0"
  shows "pow2 (ilog2 x) \<le> \<bar>x\<bar> \<and> \<bar>x\<bar> < pow2 (ilog2 x + 1)"
proof -
  obtain p q where pq: "quotient_of \<bar>x\<bar> = (p, q)" by force
  have q: "0 < q" by (rule quotient_of_denom_pos [OF pq])
  have x: "\<bar>x\<bar> = of_int p / of_int q" by (rule quotient_of_div [OF pq])
  have p: "0 < p"
  proof -
    from assms have "0 < \<bar>x\<bar>" by simp
    with x q show ?thesis by (simp add: zero_less_divide_iff)
  qed
  define d where "d = bitlen p - bitlen q"
  note bp = bitlen_rat_bounds [OF p] and bq = bitlen_rat_bounds [OF q]
  have qpos: "(0 :: rat) < of_int q" using q by simp
  have "\<bar>x\<bar> < pow2 (bitlen p) / pow2 (bitlen q - 1)"
    unfolding x using bp(2) bq(1) p pow2_pos [of "bitlen q - 1"]
    by (intro frac_less) simp_all
  then have up: "\<bar>x\<bar> < pow2 (d + 1)"
    by (simp add: d_def flip: pow2_diff) (simp add: algebra_simps)
  have "pow2 (bitlen p - 1) / pow2 (bitlen q) < \<bar>x\<bar>"
    unfolding x using bp(1) bq(2) qpos pow2_pos [of "bitlen p - 1"]
    by (intro frac_less2) simp_all
  then have lo: "pow2 (d - 1) < \<bar>x\<bar>"
    by (simp add: d_def flip: pow2_diff) (simp add: algebra_simps)
  have il: "ilog2 x = (if pow2 d \<le> \<bar>x\<bar> then d else d - 1)"
    by (simp add: ilog2_def pq d_def Let_def)
  show ?thesis
  proof (cases "pow2 d \<le> \<bar>x\<bar>")
    case True
    with il up show ?thesis by simp
  next
    case False
    with il lo show ?thesis by simp
  qed
qed

lemma ilog2_unique:
  assumes "pow2 e \<le> \<bar>x\<bar>" and "\<bar>x\<bar> < pow2 (e + 1)"
  shows "ilog2 x = e"
proof -
  from assms(1) pow2_pos [of e] have "x \<noteq> 0" by auto
  from ilog2_bounds [OF this]
  have a: "pow2 (ilog2 x) \<le> \<bar>x\<bar>" and b: "\<bar>x\<bar> < pow2 (ilog2 x + 1)" by simp_all
  have "\<not> e + 1 \<le> ilog2 x"
  proof
    assume "e + 1 \<le> ilog2 x"
    from pow2_mono [OF this] a assms(2) show False by simp
  qed
  moreover have "\<not> ilog2 x + 1 \<le> e"
  proof
    assume "ilog2 x + 1 \<le> e"
    from pow2_mono [OF this] b assms(1) show False by simp
  qed
  ultimately show ?thesis by simp
qed

lemma round_half_even_le: "x \<le> of_int N + 2 / 5 \<Longrightarrow> round_half_even x \<le> N"
  unfolding round_half_even_def Let_def by (auto; linarith)

lemma round_half_even_ge: "of_int N \<le> x \<Longrightarrow> N \<le> round_half_even x"
  unfolding round_half_even_def Let_def by (auto; linarith)

lemma round_half_even_small:
  assumes "\<bar>x\<bar> \<le> 1 / 2"
  shows "round_half_even x = 0"
proof -
  consider "x = - 1 / 2" | "- 1 / 2 < x" "x < 0" | "0 \<le> x" using assms by fastforce
  then show ?thesis
  proof cases
    case 1
    have "\<lfloor>x\<rfloor> = - 1" unfolding 1 by (rule floor_unique) simp_all
    then show ?thesis by (simp add: round_half_even_def 1)
  next
    case 2
    then have "\<lfloor>x\<rfloor> = - 1" by (intro floor_unique) simp_all
    with 2 show ?thesis by (simp add: round_half_even_def)
  next
    case 3
    with assms have "\<lfloor>x\<rfloor> = 0" by (intro floor_unique) simp_all
    with 3 assms show ?thesis by (auto simp add: round_half_even_def)
  qed
qed


lemma pow2_le_cancel: "pow2 a \<le> pow2 b \<Longrightarrow> a \<le> b"
  using pow2_strict_mono [of b a] by (cases "a \<le> b") auto

lemma pow2_int: "0 \<le> k \<Longrightarrow> pow2 k = of_int (2 ^ nat k)"
  by (simp add: pow2_def)

lemma fl_round_bound:
  assumes "\<bar>x\<bar> \<le> pow2 k" and "k \<le> 1023"
  shows "\<exists>y. fl_round x = Fin y \<and> \<bar>y\<bar> \<le> pow2 k"
proof (cases "x = 0")
  case True
  then show ?thesis using pow2_pos [of k] by (simp add: fl_round_def less_imp_le)
next
  case False
  define e where "e = ilog2 x"
  define q where "q = max (e - 52) (- 1074)"
  define m where "m = round_half_even (x / pow2 q)"
  from ilog2_bounds [OF False] have "pow2 e \<le> \<bar>x\<bar>" by (simp add: e_def)
  with assms(1) have "pow2 e \<le> pow2 k" by simp
  then have ek: "e \<le> k" by (rule pow2_le_cancel)
  with assms(2) have q971: "q \<le> 971" by (simp add: q_def)
  have z: "\<bar>x / pow2 q\<bar> \<le> pow2 (k - q)"
    using assms(1) pow2_pos [of q] by (simp add: pow2_diff divide_right_mono)
  have bound: "\<bar>of_int m * pow2 q\<bar> \<le> pow2 k"
  proof (cases "q \<le> k")
    case True
    define N :: int where "N = 2 ^ nat (k - q)"
    from True have N: "pow2 (k - q) = of_int N" by (simp add: N_def pow2_int)
    from z N have "\<bar>x / pow2 q\<bar> \<le> of_int N" by simp
    then have u: "x / pow2 q \<le> of_int N + 2 / 5" and l: "of_int (- N) \<le> x / pow2 q"
      by linarith+
    have "m \<le> N" unfolding m_def using u by (rule round_half_even_le)
    moreover have "- N \<le> m" unfolding m_def using l by (rule round_half_even_ge)
    ultimately have "m \<le> N" and "- N \<le> m" by simp_all
    then have "\<bar>(of_int m :: rat)\<bar> \<le> of_int N" by (simp add: abs_le_iff flip: of_int_minus)
    then have "\<bar>of_int m * pow2 q\<bar> \<le> pow2 (k - q) * pow2 q"
      using pow2_pos [of q] by (simp add: N abs_mult mult_right_mono)
    then show ?thesis by (simp flip: pow2_add)
  next
    case False
    then have "k - q \<le> - 1" by simp
    from pow2_mono [OF this] have "pow2 (k - q) \<le> pow2 (- 1)" .
    moreover have "pow2 (- 1) = 1 / 2" by (simp add: pow2_def)
    ultimately have "\<bar>x / pow2 q\<bar> \<le> 1 / 2" using z by linarith
    then have "m = 0" unfolding m_def by (rule round_half_even_small)
    then show ?thesis using pow2_pos [of k] by (simp add: less_imp_le)
  qed
  have no_overflow: "\<not> (971 < q \<or> (q = 971 \<and> 2 ^ 53 \<le> \<bar>m\<bar>))"
  proof
    assume "971 < q \<or> (q = 971 \<and> 2 ^ 53 \<le> \<bar>m\<bar>)"
    with q971 have q: "q = 971" and m: "2 ^ 53 \<le> \<bar>m\<bar>" by simp_all
    from m have "(of_int (2 ^ 53) :: rat) \<le> of_int \<bar>m\<bar>" by (simp only: of_int_le_iff)
    then have "pow2 53 \<le> \<bar>of_int m :: rat\<bar>" by (simp add: pow2_def)
    then have "pow2 53 * pow2 q \<le> \<bar>of_int m * pow2 q\<bar>"
      using pow2_pos [of q] by (simp add: abs_mult mult_right_mono)
    with bound have "pow2 (53 + q) \<le> pow2 k" by (simp add: pow2_add)
    then have "53 + q \<le> k" by (rule pow2_le_cancel)
    with q assms(2) show False by simp
  qed
  have "fl_round x = Fin (of_int m * pow2 q)"
    using False no_overflow by (simp add: fl_round_def Let_def e_def q_def m_def)
  with bound show ?thesis by simp
qed

lemma fl_round_binade:
  assumes "pow2 e \<le> \<bar>x\<bar>" and "\<bar>x\<bar> < pow2 (e + 1)" and "- 1022 \<le> e" and "e < 1023"
  shows "fl_round x = Fin (of_int (round_half_even (x / pow2 (e - 52))) * pow2 (e - 52))"
proof -
  from assms(1) pow2_pos [of e] have nz: "x \<noteq> 0" by auto
  have il: "ilog2 x = e" by (rule ilog2_unique [OF assms(1) assms(2)])
  from assms(2) have "\<bar>x\<bar> \<le> pow2 (e + 1)" by simp
  moreover from assms(4) have "e + 1 \<le> 1023" by simp
  ultimately obtain y where y: "fl_round x = Fin y" using fl_round_bound by blast
  from assms(3) have q: "max (e - 52) (- 1074) = e - 52" by simp
  from y nz show ?thesis
    by (simp add: fl_round_def Let_def il q split: if_splits)
qed


lemma fl_7_10: "fl (7 / 10) = Fin (3152519739159347 / 4503599627370496)"
  by code_simp

lemma fl_round_1: "fl_round 1 = Fin 1"
  by code_simp

lemma pow2_m53: "pow2 (- 53) = 1 / 9007199254740992"
  by (simp add: pow2_def)

lemma fraction_above_threshold:
  assumes "0 \<le> k" and "k \<le> n" and "0 < n" and "n \<le> 2 ^ 50"
  shows "\<exists>y. int_truediv k n = Inr (Fin y) \<and> (flt (fl (7 / 10)) (Fin y) \<longleftrightarrow> 7 * n < 10 * k)"
proof -
  define x :: rat where "x = of_int k / of_int n"
  have npos: "(0 :: rat) < of_int n" using assms(3) by simp
  have x0: "0 \<le> x" using assms(1) npos by (simp add: x_def)
  have x1: "x \<le> 1" using assms(2) npos by (simp add: x_def)
  have tr: "int_truediv k n = (case fl_round x of Fin r \<Rightarrow> Inr (Fin r) | _ \<Rightarrow> Inl OverflowError)"
    using assms(3) by (simp add: int_truediv_def x_def)
  consider "x < 1 / 2" | "1 / 2 \<le> x" "x < 1" | "x = 1" using x1 by fastforce
  then show ?thesis
  proof cases
    case 1
    have "pow2 (- 1) = 1 / 2" by (simp add: pow2_def)
    with 1 x0 have "\<bar>x\<bar> \<le> pow2 (- 1)" by simp
    from fl_round_bound [OF this] obtain y where y: "fl_round x = Fin y" and "\<bar>y\<bar> \<le> pow2 (- 1)"
      by auto
    with \<open>pow2 (- 1) = 1 / 2\<close> have yb: "y \<le> 1 / 2" by simp
    from 1 npos have "of_int k * 2 < (of_int n :: rat)" by (simp add: x_def field_simps)
    then have "(of_int (k * 2) :: rat) < of_int n" by simp
    then have "k * 2 < n" by (simp only: of_int_less_iff)
    with assms(1) have "\<not> 7 * n < 10 * k" by simp
    with y yb show ?thesis by (simp add: tr fl_7_10)
  next
    case 2
    have p0: "pow2 (- 1) = 1 / 2" and p1: "pow2 0 = 1" by (simp_all add: pow2_def)
    from 2 x0 have a: "pow2 (- 1) \<le> \<bar>x\<bar>" and b: "\<bar>x\<bar> < pow2 (- 1 + 1)" by (simp_all add: p0 p1)
    define m where "m = round_half_even (x * 9007199254740992)"
    from fl_round_binade [OF a b] have y: "fl_round x = Fin (of_int m / 9007199254740992)"
      by (simp add: pow2_m53 m_def)
    then have r: "int_truediv k n = Inr (Fin (of_int m / 9007199254740992))" by (simp add: tr)
    have flag: "flt (fl (7 / 10)) (Fin (of_int m / 9007199254740992)) \<longleftrightarrow> 6305039478318694 < m"
    proof -
      have "(3152519739159347 / 4503599627370496 < (of_int m :: rat) / 9007199254740992)
              \<longleftrightarrow> (of_int 6305039478318694 :: rat) < of_int m"
        by (simp add: field_simps)
      also have "\<dots> \<longleftrightarrow> 6305039478318694 < m" by (simp only: of_int_less_iff)
      finally show ?thesis by (simp add: fl_7_10)
    qed
    show ?thesis
    proof (cases "7 * n < 10 * k")
      case True
      then have "7 * n + 1 \<le> 10 * k" by simp
      then have "(of_int (7 * n + 1) :: rat) \<le> of_int (10 * k)" by (simp only: of_int_le_iff)
      then have "7 * of_int n + 1 \<le> 10 * (of_int k :: rat)" by simp
      then have "(7 * of_int n + 1) / (10 * of_int n) \<le> 10 * (of_int k :: rat) / (10 * of_int n)"
        using npos by (intro divide_right_mono) simp_all
      moreover have "(7 * of_int n + 1) / (10 * of_int n) = 7 / 10 + 1 / (10 * (of_int n :: rat))"
        using npos by (simp add: add_divide_distrib)
      moreover have "10 * (of_int k :: rat) / (10 * of_int n) = x"
        by (simp add: x_def)
      ultimately have x7: "7 / 10 + 1 / (10 * of_int n) \<le> x" by simp
      from assms(4) have "(of_int n :: rat) \<le> of_int (2 ^ 50)" by (simp only: of_int_le_iff)
      then have "(of_int n :: rat) \<le> 1125899906842624" by simp
      then have "1 / (10 * 1125899906842624) \<le> 1 / (10 * (of_int n :: rat))"
        using npos by (intro divide_left_mono) simp_all
      with x7 have "7 / 10 + 1 / (10 * 1125899906842624) \<le> x" by linarith
      then have "of_int 6305039478318695 \<le> x * 9007199254740992" by simp
      then have "6305039478318695 \<le> m" unfolding m_def by (rule round_half_even_ge)
      with flag have "flt (fl (7 / 10)) (Fin (of_int m / 9007199254740992))" by simp
      with True r show ?thesis by blast
    next
      case False
      then have "10 * k \<le> 7 * n" by simp
      then have "(of_int (10 * k) :: rat) \<le> of_int (7 * n)" by (simp only: of_int_le_iff)
      then have "10 * (of_int k :: rat) \<le> 7 * of_int n" by simp
      then have "x \<le> 7 / 10" using npos by (simp add: x_def field_simps)
      then have "x * 9007199254740992 \<le> of_int 6305039478318694 + 2 / 5" by simp
      then have "m \<le> 6305039478318694" unfolding m_def by (rule round_half_even_le)
      with flag have "\<not> flt (fl (7 / 10)) (Fin (of_int m / 9007199254740992))" by simp
      with False r show ?thesis by blast
    qed
  next
    case 3
    with npos have "(of_int k :: rat) = of_int n" by (simp add: x_def)
    then have "k = n" by (simp only: of_int_eq_iff)
    from 3 have "int_truediv k n = Inr (Fin 1)" by (simp add: tr fl_round_1)
    moreover have "flt (fl (7 / 10)) (Fin 1)" by (simp add: fl_7_10)
    moreover have "7 * n < 10 * k" using \<open>k = n\<close> assms(3) by simp
    ultimately show ?thesis by blast
  qed
qed

subsection \<open>Gaps of the vendor group\<close>

lemma emap_length: "emap f xs = Inr ys \<Longrightarrow> length ys = length xs"
proof (induction xs arbitrary: ys)
  case Nil
  then show ?case by simp
next
  case (Cons x xs)
  then show ?case by (auto simp add: ebind_def split: sum.splits)
qed

lemma gaps_length: "length (gaps xs) = length xs - 1"
  by (induction xs rule: gaps.induct) simp_all

lemma vendor_gaps_length:
  assumes "vendor_gaps t ts = Inr g"
  shows "length g = length (filter (\<lambda>h. name h = name t) ts) - 1"
proof -
  from assms obtain ds where ds: "parse_dates (filter (\<lambda>h. name h = name t) ts) = Inr ds"
    and g: "g = gaps (map toordinal (sorted_dates ds))"
    by (auto simp add: vendor_gaps_def ebind_def split: sum.splits)
  from ds have "length ds = length (filter (\<lambda>h. name h = name t) ts)"
    unfolding parse_dates_def by (rule emap_length)
  with g show ?thesis by (simp add: gaps_length sorted_dates_def)
qed

text \<open>
  C5, as stated: the median is the lower-middle element of the sorted gaps. For the
  gaps 1 and 3 the code returns 3, the lower-middle element is 1.
\<close>

theorem median_frequency_not_lower_middle:
  "vendor_gaps netflix_tx uneven_history = Inr [1, 3]
   \<and> (case get_frequency_features netflix_tx uneven_history of
        Inl e \<Rightarrow> False
      | Inr d \<Rightarrow> dict_get d ''median_frequency'' = Some (VInt 3)
                 \<and> dict_get d ''median_frequency'' \<noteq> Some (VInt (lower_middle [1, 3])))"
  by code_simp

text \<open>
  C5, amended: with at least 2 vendor transactions, \<open>median_frequency\<close> is the element
  of the sorted gaps at index \<open>\<lfloor>n / 2\<rfloor>\<close> (for an even number of gaps the upper of the
  two middle elements); with fewer than 2, all four features are \<open>0.0\<close>.
\<close>

theorem median_frequency_floor_index:
  "(length (filter (\<lambda>h. name h = name t) ts) < 2 \<longrightarrow>
      get_frequency_features t ts
        = Inr [(''frequency'', VFloat (Fin 0)), (''date_variability'', VFloat (Fin 0)),
               (''median_frequency'', VFloat (Fin 0)), (''std_frequency'', VFloat (Fin 0))])
   \<and> (2 \<le> length (filter (\<lambda>h. name h = name t) ts) \<longrightarrow> vendor_gaps t ts = Inr g \<longrightarrow>
        get_frequency_features t ts = Inr d \<longrightarrow>
        dict_get d ''median_frequency'' = Some (VInt (sort g ! (length g div 2))))"
proof (intro conjI impI)
  assume "length (filter (\<lambda>h. name h = name t) ts) < 2"
  then show "get_frequency_features t ts
        = Inr [(''frequency'', VFloat (Fin 0)), (''date_variability'', VFloat (Fin 0)),
               (''median_frequency'', VFloat (Fin 0)), (''std_frequency'', VFloat (Fin 0))]"
    by (simp add: get_frequency_features_def)
next
  assume n: "2 \<le> length (filter (\<lambda>h. name h = name t) ts)"
    and g: "vendor_gaps t ts = Inr g" and d: "get_frequency_features t ts = Inr d"
  from g obtain ds where ds: "parse_dates (filter (\<lambda>h. name h = name t) ts) = Inr ds"
    and g': "gaps (map toordinal (sorted_dates ds)) = g"
    by (auto simp add: vendor_gaps_def ebind_def split: sum.splits)
  from vendor_gaps_length [OF g] n have "length g div 2 < length g" by simp
  then have m: "list_get (sort g) (length g div 2) = Inr (sort g ! (length g div 2))"
    by (simp add: list_get_def)
  from d n ds g' m show "dict_get d ''median_frequency'' = Some (VInt (sort g ! (length g div 2)))"
    by (auto simp add: get_frequency_features_def Let_def ebind_def dict_get_def
        split: sum.splits)
qed

theorem median_frequency_floor_index_witness:
  "length (filter (\<lambda>h. name h = name netflix_tx) [netflix_tx]) < 2
   \<and> get_frequency_features netflix_tx [netflix_tx]
        = Inr [(''frequency'', VFloat (Fin 0)), (''date_variability'', VFloat (Fin 0)),
               (''median_frequency'', VFloat (Fin 0)), (''std_frequency'', VFloat (Fin 0))]
   \<and> 2 \<le> length (filter (\<lambda>h. name h = name netflix_tx) uneven_history)
   \<and> vendor_gaps netflix_tx uneven_history = Inr [1, 3]
   \<and> get_frequency_features netflix_tx uneven_history
        = Inr [(''frequency'', VFloat (Fin 2)), (''date_variability'', VInt 2),
               (''median_frequency'', VInt 3), (''std_frequency'', VFloat (Fin 1))]
   \<and> sort [1, 3 :: int] ! (length [1, 3 :: int] div 2) = 3"
proof -
  have a: "length (filter (\<lambda>h. name h = name netflix_tx) [netflix_tx]) < 2" by simp
  have b: "2 \<le> length (filter (\<lambda>h. name h = name netflix_tx) uneven_history)" by code_simp
  have c: "vendor_gaps netflix_tx uneven_history = Inr [1, 3]" by code_simp
  have d: "get_frequency_features netflix_tx uneven_history
        = Inr [(''frequency'', VFloat (Fin 2)), (''date_variability'', VInt 2),
               (''median_frequency'', VInt 3), (''std_frequency'', VFloat (Fin 1))]" by code_simp
  from median_frequency_floor_index [of netflix_tx "[netflix_tx]"] a
  have e: "get_frequency_features netflix_tx [netflix_tx]
        = Inr [(''frequency'', VFloat (Fin 0)), (''date_variability'', VFloat (Fin 0)),
               (''median_frequency'', VFloat (Fin 0)), (''std_frequency'', VFloat (Fin 0))]"
    by blast
  from median_frequency_floor_index [of netflix_tx uneven_history "[1, 3]"] b c d
  have "dict_get [(''frequency'', VFloat (Fin 2)), (''date_variability'', VInt 2),
               (''median_frequency'', VInt 3), (''std_frequency'', VFloat (Fin 1))] ''median_frequency''
         = Some (VInt (sort [1, 3] ! (length [1, 3 :: int] div 2)))"
    by blast
  then have f: "sort [1, 3 :: int] ! (length [1, 3 :: int] div 2) = 3"
    by (simp add: dict_get_def)
  from a b c d e f show ?thesis by simp
qed

text \<open>
  C7. With fewer than 3 vendor transactions the three outputs are 0. With at least 3
  whose dates parse, the function returns, and each flag is 1 exactly when the exact
  fraction of gaps in its window exceeds \<open>7/10\<close>; the code compares the rounded quotient
  with the float \<open>0.7\<close>, which decides the same for up to \<open>2\<^sup>5\<^sup>0\<close> gaps. Three transactions
  28 days apart give \<open>is_monthly_consistent = 1\<close> and \<open>is_weekly_consistent = 0\<close>.
\<close>

theorem temporal_consistency_flags:
  "(length (filter (\<lambda>h. name h = name t) ts) < 3 \<longrightarrow>
      get_temporal_consistency_features t ts
        = Inr [(''temporal_consistency_score'', VFloat (Fin 0)),
               (''is_monthly_consistent'', VInt 0), (''is_weekly_consistent'', VInt 0)])
   \<and> (3 \<le> length (filter (\<lambda>h. name h = name t) ts) \<longrightarrow> vendor_gaps t ts = Inr g \<longrightarrow>
        length g \<le> 2 ^ 50 \<longrightarrow>
        (\<exists>score. get_temporal_consistency_features t ts
           = Inr [(''temporal_consistency_score'', VFloat score),
                  (''is_monthly_consistent'',
                     VInt (if 7 * int (length g) < 10 * int (length (filter (\<lambda>d. 28 \<le> d \<and> d \<le> 31) g))
                           then 1 else 0)),
                  (''is_weekly_consistent'',
                     VInt (if 7 * int (length g) < 10 * int (length (filter (\<lambda>d. 6 \<le> d \<and> d \<le> 8) g))
                           then 1 else 0))]))
   \<and> (case get_temporal_consistency_features (hd spotify_history) spotify_history of
        Inl e \<Rightarrow> False
      | Inr d \<Rightarrow> dict_get d ''is_monthly_consistent'' = Some (VInt 1)
                 \<and> dict_get d ''is_weekly_consistent'' = Some (VInt 0))"
proof (intro conjI impI)
  assume "length (filter (\<lambda>h. name h = name t) ts) < 3"
  then show "get_temporal_consistency_features t ts
        = Inr [(''temporal_consistency_score'', VFloat (Fin 0)),
               (''is_monthly_consistent'', VInt 0), (''is_weekly_consistent'', VInt 0)]"
    by (simp add: get_temporal_consistency_features_def)
next
  assume n: "3 \<le> length (filter (\<lambda>h. name h = name t) ts)"
    and g: "vendor_gaps t ts = Inr g" and len: "length g \<le> 2 ^ 50"
  from g obtain ds where ds: "parse_dates (filter (\<lambda>h. name h = name t) ts) = Inr ds"
    and g': "gaps (map toordinal (sorted_dates ds)) = g"
    by (auto simp add: vendor_gaps_def ebind_def split: sum.splits)
  from vendor_gaps_length [OF g] n have pos: "0 < length g" by simp
  then have ne: "g \<noteq> []" by auto
  let ?km = "int (length (filter (\<lambda>d. 28 \<le> d \<and> d \<le> 31) g))"
  let ?kw = "int (length (filter (\<lambda>d. 6 \<le> d \<and> d \<le> 8) g))"
  have n50: "int (length g) \<le> 2 ^ 50"
  proof -
    from len have "int (length g) \<le> int (2 ^ 50)" by (simp only: of_nat_le_iff)
    then show ?thesis by simp
  qed
  have npos: "0 < int (length g)" using pos by simp
  from fraction_above_threshold [of ?km "int (length g)"] npos n50
  obtain ym where ym: "int_truediv ?km (int (length g)) = Inr (Fin ym)"
    and fm: "flt (fl (7 / 10)) (Fin ym) \<longleftrightarrow> 7 * int (length g) < 10 * ?km"
    by auto
  from fraction_above_threshold [of ?kw "int (length g)"] npos n50
  obtain yw where yw: "int_truediv ?kw (int (length g)) = Inr (Fin yw)"
    and fw: "flt (fl (7 / 10)) (Fin yw) \<longleftrightarrow> 7 * int (length g) < 10 * ?kw"
    by auto
  have "get_temporal_consistency_features t ts
           = Inr [(''temporal_consistency_score'', VFloat (c_div (fadd (Fin ym) (Fin yw)) (Fin 2))),
                  (''is_monthly_consistent'', VInt (if 7 * int (length g) < 10 * ?km then 1 else 0)),
                  (''is_weekly_consistent'', VInt (if 7 * int (length g) < 10 * ?kw then 1 else 0))]"
    using n ds g' ne ym yw fm fw
    by (simp add: get_temporal_consistency_features_def Let_def ebind_def fraction_in_def
        ftruediv_def)
  then show "\<exists>score. get_temporal_consistency_features t ts
           = Inr [(''temporal_consistency_score'', VFloat score),
                  (''is_monthly_consistent'', VInt (if 7 * int (length g) < 10 * ?km then 1 else 0)),
                  (''is_weekly_consistent'', VInt (if 7 * int (length g) < 10 * ?kw then 1 else 0))]"
    by blast
next
  show "case get_temporal_consistency_features (hd spotify_history) spotify_history of
        Inl e \<Rightarrow> False
      | Inr d \<Rightarrow> dict_get d ''is_monthly_consistent'' = Some (VInt 1)
                 \<and> dict_get d ''is_weekly_consistent'' = Some (VInt 0)"
    by code_simp
qed

theorem temporal_consistency_flags_witness:
  "length (filter (\<lambda>h. name h = name netflix_tx) [netflix_tx]) < 3
   \<and> get_temporal_consistency_features netflix_tx [netflix_tx]
        = Inr [(''temporal_consistency_score'', VFloat (Fin 0)),
               (''is_monthly_consistent'', VInt 0), (''is_weekly_consistent'', VInt 0)]
   \<and> 3 \<le> length (filter (\<lambda>h. name h = name (hd spotify_history)) spotify_history)
   \<and> vendor_gaps (hd spotify_history) spotify_history = Inr [28, 28]
   \<and> length [28, 28 :: int] \<le> 2 ^ 50
   \<and> (\<exists>score. get_temporal_consistency_features (hd spotify_history) spotify_history
           = Inr [(''temporal_consistency_score'', VFloat score),
                  (''is_monthly_consistent'', VInt 1), (''is_weekly_consistent'', VInt 0)])"
proof -
  have a: "length (filter (\<lambda>h. name h = name netflix_tx) [netflix_tx]) < 3" by simp
  have b: "3 \<le> length (filter (\<lambda>h. name h = name (hd spotify_history)) spotify_history)"
    by code_simp
  have c: "vendor_gaps (hd spotify_history) spotify_history = Inr [28, 28]" by code_simp
  have d: "length [28, 28 :: int] \<le> 2 ^ 50" by simp
  from temporal_consistency_flags [of netflix_tx "[netflix_tx]"] a
  have e: "get_temporal_consistency_features netflix_tx [netflix_tx]
        = Inr [(''temporal_consistency_score'', VFloat (Fin 0)),
               (''is_monthly_consistent'', VInt 0), (''is_weekly_consistent'', VInt 0)]"
    by blast
  from temporal_consistency_flags [of "hd spotify_history" spotify_history "[28, 28]"] b c d
  have "\<exists>score. get_temporal_consistency_features (hd spotify_history) spotify_history
           = Inr [(''temporal_consistency_score'', VFloat score),
                  (''is_monthly_consistent'',
                     VInt (if 7 * int (length [28, 28 :: int])
                              < 10 * int (length (filter (\<lambda>d. 28 \<le> d \<and> d \<le> 31) [28, 28 :: int]))
                           then 1 else 0)),
                  (''is_weekly_consistent'',
                     VInt (if 7 * int (length [28, 28 :: int])
                              < 10 * int (length (filter (\<lambda>d. 6 \<le> d \<and> d \<le> 8) [28, 28 :: int]))
                           then 1 else 0))]"
    by blast
  then have f: "\<exists>score. get_temporal_consistency_features (hd spotify_history) spotify_history
           = Inr [(''temporal_consistency_score'', VFloat score),
                  (''is_monthly_consistent'', VInt 1), (''is_weekly_consistent'', VInt 0)]"
    by simp
  from a b c d e f show ?thesis by simp
qed

subsection \<open>A target that is not in the history\<close>
















end
